theory Spec2Isabelle
  imports Complex_Main
begin

section \<open>The error-recovery engine of \<^verbatim>\<open>core/error_handler.py\<close>\<close>

text \<open>
  The development embeds the class \<^verbatim>\<open>IntelligentErrorHandler\<close>: its static tables, the
  classifier, the strategy selector, parameter adjustment, tool substitution and the
  bounded error history with its statistics.

  Modelling conventions.
  \<^item> Python \<^verbatim>\<open>str\<close> is \<open>string\<close>; the messages and patterns of the module are ASCII.
  \<^item> Python \<^verbatim>\<open>int\<close> is \<open>int\<close>. A \<^verbatim>\<open>float\<close> field of a record holds the real number
    that the float stands for. The arithmetic on floats is not fixed: the functions that
    compute with floats take the arithmetic as a parameter, so that what is proved of them
    holds whatever the rounding is.
  \<^item> A \<^verbatim>\<open>dict\<close> literal is an association list in its insertion order; a dictionary
    that is copied, updated or counted into is a map.
  \<^item> An exception that a function may raise is the \<open>Inl\<close> side of its result.
  \<^item> Logging is not modelled.
\<close>

subsection \<open>Error types and recovery actions\<close>

datatype ErrorType =
    TIMEOUT
  | PERMISSION_DENIED
  | NETWORK_UNREACHABLE
  | RATE_LIMITED
  | TOOL_NOT_FOUND
  | INVALID_PARAMETERS
  | RESOURCE_EXHAUSTED
  | AUTHENTICATION_FAILED
  | TARGET_UNREACHABLE
  | PARSING_ERROR
  | UNKNOWN

text \<open>\<^verbatim>\<open>ErrorType.value\<close>\<close>

fun error_type_value :: "ErrorType \<Rightarrow> string" where
  "error_type_value TIMEOUT = ''timeout''"
| "error_type_value PERMISSION_DENIED = ''permission_denied''"
| "error_type_value NETWORK_UNREACHABLE = ''network_unreachable''"
| "error_type_value RATE_LIMITED = ''rate_limited''"
| "error_type_value TOOL_NOT_FOUND = ''tool_not_found''"
| "error_type_value INVALID_PARAMETERS = ''invalid_parameters''"
| "error_type_value RESOURCE_EXHAUSTED = ''resource_exhausted''"
| "error_type_value AUTHENTICATION_FAILED = ''authentication_failed''"
| "error_type_value TARGET_UNREACHABLE = ''target_unreachable''"
| "error_type_value PARSING_ERROR = ''parsing_error''"
| "error_type_value UNKNOWN = ''unknown''"

datatype RecoveryAction =
    RETRY_WITH_BACKOFF
  | RETRY_WITH_REDUCED_SCOPE
  | SWITCH_TO_ALTERNATIVE_TOOL
  | ADJUST_PARAMETERS
  | ESCALATE_TO_HUMAN
  | GRACEFUL_DEGRADATION
  | ABORT_OPERATION

text \<open>The values that the dictionaries of the module hold (\<^verbatim>\<open>Dict[str, Any]\<close>).\<close>

datatype pyval = PStr string | PBool bool | PInt int

text \<open>Truth value of the result of \<^verbatim>\<open>dict.get(key)\<close>: a missing key gives \<^verbatim>\<open>None\<close>.\<close>

fun truthy :: "pyval option \<Rightarrow> bool" where
  "truthy None = False"
| "truthy (Some (PBool b)) = b"
| "truthy (Some (PStr s)) = (s \<noteq> [])"
| "truthy (Some (PInt i)) = (i \<noteq> 0)"

datatype py_error = IndexError | OverflowError

text \<open>
  \<^verbatim>\<open>ErrorContext\<close>. The timestamp is in seconds; \<^verbatim>\<open>previous_errors\<close> makes the
  type recursive.
\<close>

datatype ErrorContext = ErrorContext
  (tool_name: string)
  (target: string)
  (context_parameters: "(string \<times> pyval) list")
  (error_type: ErrorType)
  (error_message: string)
  (attempt_count: int)
  (timestamp: real)
  (stack_trace: string)
  (system_resources: "(string \<times> pyval) list")
  (previous_errors: "ErrorContext list")

record RecoveryStrategy =
  action :: RecoveryAction
  parameters :: "(string \<times> pyval) list"
  max_attempts :: int
  backoff_multiplier :: real
  success_probability :: real
  estimated_time :: int

subsection \<open>The static tables\<close>

text \<open>\<^verbatim>\<open>_initialize_error_patterns\<close>: the dictionary in its insertion order.\<close>

definition error_patterns :: "(string \<times> ErrorType) list" where
  "error_patterns =
    [(''timeout|timed out|connection timeout|read timeout'', TIMEOUT),
     (''operation timed out|command timeout'', TIMEOUT),
     (''permission denied|access denied|forbidden|not authorized'', PERMISSION_DENIED),
     (''sudo required|root required|insufficient privileges'', PERMISSION_DENIED),
     (''network unreachable|host unreachable|no route to host'', NETWORK_UNREACHABLE),
     (''connection refused|connection reset|network error'', NETWORK_UNREACHABLE),
     (''rate limit|too many requests|throttled|429'', RATE_LIMITED),
     (''request limit exceeded|quota exceeded'', RATE_LIMITED),
     (''command not found|no such file or directory|not found'', TOOL_NOT_FOUND),
     (''executable not found|binary not found'', TOOL_NOT_FOUND),
     (''invalid argument|invalid option|unknown option'', INVALID_PARAMETERS),
     (''bad parameter|invalid parameter|syntax error'', INVALID_PARAMETERS),
     (''out of memory|memory error|disk full|no space left'', RESOURCE_EXHAUSTED),
     (''resource temporarily unavailable|too many open files'', RESOURCE_EXHAUSTED),
     (''authentication failed|login failed|invalid credentials'', AUTHENTICATION_FAILED),
     (''unauthorized|invalid token|expired token'', AUTHENTICATION_FAILED),
     (''target unreachable|target not responding|target down'', TARGET_UNREACHABLE),
     (''host not found|dns resolution failed'', TARGET_UNREACHABLE),
     (''parse error|parsing failed|invalid format|malformed'', PARSING_ERROR),
     (''json decode error|xml parse error|invalid json'', PARSING_ERROR)]"

text \<open>
  \<^verbatim>\<open>_initialize_recovery_strategies\<close>: every \<^verbatim>\<open>ErrorType\<close> is a key of the dictionary,
  so the lookup \<^verbatim>\<open>recovery_strategies.get(error_type, ...)\<close> never takes its default.
\<close>

fun recovery_strategies :: "ErrorType \<Rightarrow> RecoveryStrategy list" where
  "recovery_strategies TIMEOUT =
     [\<lparr> action = RETRY_WITH_BACKOFF,
        parameters = [(''initial_delay'', PInt 5),
                       (''max_delay'', PInt 60)],
        max_attempts = 3, backoff_multiplier = 2.0,
        success_probability = 0.7, estimated_time = 30 \<rparr>,
      \<lparr> action = RETRY_WITH_REDUCED_SCOPE,
        parameters = [(''reduce_threads'', PBool True),
                       (''reduce_timeout'', PBool True)],
        max_attempts = 2, backoff_multiplier = 1.0,
        success_probability = 0.8, estimated_time = 45 \<rparr>,
      \<lparr> action = SWITCH_TO_ALTERNATIVE_TOOL,
        parameters = [(''prefer_faster_tools'', PBool True)],
        max_attempts = 1, backoff_multiplier = 1.0,
        success_probability = 0.6, estimated_time = 60 \<rparr>]"
| "recovery_strategies PERMISSION_DENIED =
     [\<lparr> action = ESCALATE_TO_HUMAN,
        parameters = [(''message'', PStr ''Privilege escalation required''),
                       (''urgency'', PStr ''medium'')],
        max_attempts = 1, backoff_multiplier = 1.0,
        success_probability = 0.9, estimated_time = 300 \<rparr>,
      \<lparr> action = SWITCH_TO_ALTERNATIVE_TOOL,
        parameters = [(''require_no_privileges'', PBool True)],
        max_attempts = 1, backoff_multiplier = 1.0,
        success_probability = 0.5, estimated_time = 30 \<rparr>]"
| "recovery_strategies NETWORK_UNREACHABLE =
     [\<lparr> action = RETRY_WITH_BACKOFF,
        parameters = [(''initial_delay'', PInt 10),
                       (''max_delay'', PInt 120)],
        max_attempts = 3, backoff_multiplier = 2.0,
        success_probability = 0.6, estimated_time = 60 \<rparr>,
      \<lparr> action = SWITCH_TO_ALTERNATIVE_TOOL,
        parameters = [(''prefer_offline_tools'', PBool True)],
        max_attempts = 1, backoff_multiplier = 1.0,
        success_probability = 0.4, estimated_time = 30 \<rparr>]"
| "recovery_strategies RATE_LIMITED =
     [\<lparr> action = RETRY_WITH_BACKOFF,
        parameters = [(''initial_delay'', PInt 30),
                       (''max_delay'', PInt 300)],
        max_attempts = 5, backoff_multiplier = 1.5,
        success_probability = 0.9, estimated_time = 180 \<rparr>,
      \<lparr> action = ADJUST_PARAMETERS,
        parameters = [(''reduce_rate'', PBool True),
                       (''increase_delays'', PBool True)],
        max_attempts = 2, backoff_multiplier = 1.0,
        success_probability = 0.8, estimated_time = 120 \<rparr>]"
| "recovery_strategies TOOL_NOT_FOUND =
     [\<lparr> action = SWITCH_TO_ALTERNATIVE_TOOL,
        parameters = [(''find_equivalent'', PBool True)],
        max_attempts = 1, backoff_multiplier = 1.0,
        success_probability = 0.7, estimated_time = 15 \<rparr>,
      \<lparr> action = ESCALATE_TO_HUMAN,
        parameters = [(''message'', PStr ''Tool installation required''),
                       (''urgency'', PStr ''low'')],
        max_attempts = 1, backoff_multiplier = 1.0,
        success_probability = 0.9, estimated_time = 600 \<rparr>]"
| "recovery_strategies INVALID_PARAMETERS =
     [\<lparr> action = ADJUST_PARAMETERS,
        parameters = [(''use_defaults'', PBool True),
                       (''remove_invalid'', PBool True)],
        max_attempts = 3, backoff_multiplier = 1.0,
        success_probability = 0.8, estimated_time = 10 \<rparr>,
      \<lparr> action = SWITCH_TO_ALTERNATIVE_TOOL,
        parameters = [(''simpler_interface'', PBool True)],
        max_attempts = 1, backoff_multiplier = 1.0,
        success_probability = 0.6, estimated_time = 30 \<rparr>]"
| "recovery_strategies RESOURCE_EXHAUSTED =
     [\<lparr> action = RETRY_WITH_REDUCED_SCOPE,
        parameters = [(''reduce_memory'', PBool True),
                       (''reduce_threads'', PBool True)],
        max_attempts = 2, backoff_multiplier = 1.0,
        success_probability = 0.7, estimated_time = 60 \<rparr>,
      \<lparr> action = RETRY_WITH_BACKOFF,
        parameters = [(''initial_delay'', PInt 60),
                       (''max_delay'', PInt 300)],
        max_attempts = 2, backoff_multiplier = 2.0,
        success_probability = 0.5, estimated_time = 180 \<rparr>]"
| "recovery_strategies AUTHENTICATION_FAILED =
     [\<lparr> action = ESCALATE_TO_HUMAN,
        parameters = [(''message'', PStr ''Authentication credentials required''),
                       (''urgency'', PStr ''high'')],
        max_attempts = 1, backoff_multiplier = 1.0,
        success_probability = 0.9, estimated_time = 300 \<rparr>,
      \<lparr> action = SWITCH_TO_ALTERNATIVE_TOOL,
        parameters = [(''no_auth_required'', PBool True)],
        max_attempts = 1, backoff_multiplier = 1.0,
        success_probability = 0.4, estimated_time = 30 \<rparr>]"
| "recovery_strategies TARGET_UNREACHABLE =
     [\<lparr> action = RETRY_WITH_BACKOFF,
        parameters = [(''initial_delay'', PInt 15),
                       (''max_delay'', PInt 180)],
        max_attempts = 3, backoff_multiplier = 2.0,
        success_probability = 0.6, estimated_time = 90 \<rparr>,
      \<lparr> action = GRACEFUL_DEGRADATION,
        parameters = [(''skip_target'', PBool True),
                       (''continue_with_others'', PBool True)],
        max_attempts = 1, backoff_multiplier = 1.0,
        success_probability = 1.0, estimated_time = 5 \<rparr>]"
| "recovery_strategies PARSING_ERROR =
     [\<lparr> action = ADJUST_PARAMETERS,
        parameters = [(''change_output_format'', PBool True),
                       (''add_parsing_flags'', PBool True)],
        max_attempts = 2, backoff_multiplier = 1.0,
        success_probability = 0.7, estimated_time = 20 \<rparr>,
      \<lparr> action = SWITCH_TO_ALTERNATIVE_TOOL,
        parameters = [(''better_output_format'', PBool True)],
        max_attempts = 1, backoff_multiplier = 1.0,
        success_probability = 0.6, estimated_time = 30 \<rparr>]"
| "recovery_strategies UNKNOWN =
     [\<lparr> action = RETRY_WITH_BACKOFF,
        parameters = [(''initial_delay'', PInt 5),
                       (''max_delay'', PInt 30)],
        max_attempts = 2, backoff_multiplier = 2.0,
        success_probability = 0.3, estimated_time = 45 \<rparr>,
      \<lparr> action = ESCALATE_TO_HUMAN,
        parameters = [(''message'', PStr ''Unknown error encountered''),
                       (''urgency'', PStr ''medium'')],
        max_attempts = 1, backoff_multiplier = 1.0,
        success_probability = 0.9, estimated_time = 300 \<rparr>]"

text \<open>\<^verbatim>\<open>_initialize_tool_alternatives\<close>\<close>

definition tool_alternatives :: "(string \<times> string list) list" where
  "tool_alternatives =
    [(''nmap'', [''rustscan'', ''masscan'', ''zmap'']),
     (''rustscan'', [''nmap'', ''masscan'']),
     (''masscan'', [''nmap'', ''rustscan'', ''zmap'']),
     (''gobuster'', [''feroxbuster'', ''dirsearch'', ''ffuf'', ''dirb'']),
     (''feroxbuster'', [''gobuster'', ''dirsearch'', ''ffuf'']),
     (''dirsearch'', [''gobuster'', ''feroxbuster'', ''ffuf'']),
     (''ffuf'', [''gobuster'', ''feroxbuster'', ''dirsearch'']),
     (''nuclei'', [''jaeles'', ''nikto'', ''w3af'']),
     (''jaeles'', [''nuclei'', ''nikto'']),
     (''nikto'', [''nuclei'', ''jaeles'', ''w3af'']),
     (''katana'', [''gau'', ''waybackurls'', ''hakrawler'']),
     (''gau'', [''katana'', ''waybackurls'', ''hakrawler'']),
     (''waybackurls'', [''gau'', ''katana'', ''hakrawler'']),
     (''arjun'', [''paramspider'', ''x8'', ''ffuf'']),
     (''paramspider'', [''arjun'', ''x8'']),
     (''x8'', [''arjun'', ''paramspider'']),
     (''sqlmap'', [''sqlninja'', ''jsql-injection'']),
     (''dalfox'', [''xsser'', ''xsstrike'']),
     (''subfinder'', [''amass'', ''assetfinder'', ''findomain'']),
     (''amass'', [''subfinder'', ''assetfinder'', ''findomain'']),
     (''assetfinder'', [''subfinder'', ''amass'', ''findomain'']),
     (''prowler'', [''scout-suite'', ''cloudmapper'']),
     (''scout-suite'', [''prowler'', ''cloudmapper'']),
     (''trivy'', [''clair'', ''docker-bench-security'']),
     (''clair'', [''trivy'', ''docker-bench-security'']),
     (''ghidra'', [''radare2'', ''ida'', ''binary-ninja'']),
     (''radare2'', [''ghidra'', ''objdump'', ''gdb'']),
     (''gdb'', [''radare2'', ''lldb'']),
     (''pwntools'', [''ropper'', ''ropgadget'']),
     (''ropper'', [''ropgadget'', ''pwntools'']),
     (''ropgadget'', [''ropper'', ''pwntools''])]"

text \<open>\<^verbatim>\<open>_initialize_parameter_adjustments\<close>\<close>

definition parameter_adjustments :: "(string \<times> (ErrorType \<times> (string \<times> pyval) list) list) list" where
  "parameter_adjustments =
    [(''nmap'',
       [(TIMEOUT, [(''timing'', PStr ''-T2''), (''reduce_ports'', PBool True)]),
        (RATE_LIMITED, [(''timing'', PStr ''-T1''), (''delay'', PStr ''1000ms'')]),
        (RESOURCE_EXHAUSTED, [(''max_parallelism'', PStr ''10'')])]),
     (''gobuster'',
       [(TIMEOUT, [(''threads'', PStr ''10''), (''timeout'', PStr ''30s'')]),
        (RATE_LIMITED, [(''threads'', PStr ''5''), (''delay'', PStr ''1s'')]),
        (RESOURCE_EXHAUSTED, [(''threads'', PStr ''5'')])]),
     (''nuclei'',
       [(TIMEOUT, [(''concurrency'', PStr ''10''), (''timeout'', PStr ''30'')]),
        (RATE_LIMITED, [(''rate-limit'', PStr ''10''), (''concurrency'', PStr ''5'')]),
        (RESOURCE_EXHAUSTED, [(''concurrency'', PStr ''5'')])]),
     (''feroxbuster'',
       [(TIMEOUT, [(''threads'', PStr ''10''), (''timeout'', PStr ''30'')]),
        (RATE_LIMITED, [(''threads'', PStr ''5''), (''rate-limit'', PStr ''10'')]),
        (RESOURCE_EXHAUSTED, [(''threads'', PStr ''5'')])]),
     (''ffuf'',
       [(TIMEOUT, [(''threads'', PStr ''10''), (''timeout'', PStr ''30'')]),
        (RATE_LIMITED, [(''threads'', PStr ''5''), (''rate'', PStr ''10'')]),
        (RESOURCE_EXHAUSTED, [(''threads'', PStr ''5'')])])]"

subsection \<open>Classification\<close>

text \<open>\<^verbatim>\<open>str.lower\<close> on ASCII text.\<close>

definition lower_char :: "char \<Rightarrow> char" where
  "lower_char c =
     (let n = (of_char c :: nat) in if 65 \<le> n \<and> n \<le> 90 then char_of (n + 32) else c)"

definition lower :: "string \<Rightarrow> string" where
  "lower s = map lower_char s"

text \<open>
  \<^verbatim>\<open>re.search(pattern, text, re.IGNORECASE)\<close> for the patterns of the table: each is a
  list of literal alternatives separated by \<open>|\<close> and has no other regular-expression
  operator. The search succeeds when one alternative occurs somewhere in the text, letters
  compared without regard to case.
\<close>

fun alternatives :: "string \<Rightarrow> string list" where
  "alternatives [] = [[]]"
| "alternatives (c # cs) =
     (if c = CHR ''|'' then [] # alternatives cs
      else (case alternatives cs of
              [] \<Rightarrow> [[c]]
            | a # as \<Rightarrow> (c # a) # as))"

fun match_here :: "string \<Rightarrow> string \<Rightarrow> bool" where
  "match_here [] text = True"
| "match_here (p # ps) [] = False"
| "match_here (p # ps) (c # cs) = (lower_char p = lower_char c \<and> match_here ps cs)"

fun search_literal :: "string \<Rightarrow> string \<Rightarrow> bool" where
  "search_literal lit [] = match_here lit []"
| "search_literal lit (c # cs) = (match_here lit (c # cs) \<or> search_literal lit cs)"

definition re_search :: "string \<Rightarrow> string \<Rightarrow> bool" where
  "re_search pattern text = list_ex (\<lambda>lit. search_literal lit text) (alternatives pattern)"

text \<open>
  An exception object: the built-in classes it is an instance of, and \<^verbatim>\<open>str(error)\<close>.
  An exception object is true in a condition.
\<close>

datatype exception_class =
  TimeoutError | PermissionError | ConnectionError | FileNotFoundError | OtherError

datatype PyException = PyException (classes: "exception_class list") (str: string)

definition isinstance :: "PyException \<Rightarrow> exception_class \<Rightarrow> bool" where
  "isinstance e c = (c \<in> set (classes e))"

text \<open>The loop over \<^verbatim>\<open>self.error_patterns.items()\<close>, after which \<^verbatim>\<open>UNKNOWN\<close> is returned.\<close>

fun check_error_patterns :: "(string \<times> ErrorType) list \<Rightarrow> string \<Rightarrow> ErrorType" where
  "check_error_patterns [] error_text = UNKNOWN"
| "check_error_patterns ((pattern, etype) # rest) error_text =
     (if re_search pattern error_text then etype
      else check_error_patterns rest error_text)"

fun check_exception_type :: "PyException option \<Rightarrow> ErrorType option" where
  "check_exception_type None = None"
| "check_exception_type (Some e) =
     (if isinstance e TimeoutError then Some TIMEOUT
      else if isinstance e PermissionError then Some PERMISSION_DENIED
      else if isinstance e ConnectionError then Some NETWORK_UNREACHABLE
      else if isinstance e FileNotFoundError then Some TOOL_NOT_FOUND
      else None)"

definition classify_error :: "string \<Rightarrow> PyException option \<Rightarrow> ErrorType" where
  "classify_error message exception =
     (let error_text = lower message in
      case check_exception_type exception of
        Some etype \<Rightarrow> etype
      | None \<Rightarrow> check_error_patterns error_patterns error_text)"

subsection \<open>Strategy selection\<close>

text \<open>
  \<^verbatim>\<open>viable_strategies = [s for s in strategies if context.attempt_count <= s.max_attempts]\<close>
\<close>

definition viable_strategies :: "RecoveryStrategy list \<Rightarrow> ErrorContext \<Rightarrow> RecoveryStrategy list" where
  "viable_strategies strategies context =
     filter (\<lambda>s. attempt_count context \<le> max_attempts s) strategies"

text \<open>The strategy built when no strategy is viable.\<close>

definition exhausted_strategy :: "ErrorContext \<Rightarrow> RecoveryStrategy" where
  "exhausted_strategy context =
     \<lparr> action = ESCALATE_TO_HUMAN,
       parameters =
         [(''message'', PStr (''All recovery strategies exhausted for '' @ tool_name context)),
          (''urgency'', PStr ''high'')],
       max_attempts = 1,
       backoff_multiplier = 1.0,
       success_probability = 0.9,
       estimated_time = 300 \<rparr>"

text \<open>
  Floating-point arithmetic. The floats are an arbitrary linearly ordered type \<open>'f\<close>: the
  values that \<^verbatim>\<open><\<close> orders, which are all floats but NaN. The operations that the
  scoring uses are the fields of a record: \<open>nearest x\<close> is the float nearest to the real
  number \<open>x\<close> (the value of a literal, of a \<^verbatim>\<open>float\<close> field, or of an \<^verbatim>\<open>int\<close> that is
  converted), \<open>fpow x k\<close> is \<^verbatim>\<open>x ** k\<close> for a non-zero \<^verbatim>\<open>int\<close> \<open>k\<close>, which raises
  \<^verbatim>\<open>OverflowError\<close> when \<open>k\<close> or the result is out of range, and \<open>fmul\<close>, \<open>fsub\<close>,
  \<open>fdiv\<close> are \<^verbatim>\<open>*\<close>, \<^verbatim>\<open>-\<close> and \<^verbatim>\<open>/\<close> by a non-zero float, which do not raise.
\<close>

record 'f float_arith =
  nearest :: "real \<Rightarrow> 'f"
  fpow :: "'f \<Rightarrow> int \<Rightarrow> py_error + 'f"
  fmul :: "'f \<Rightarrow> 'f \<Rightarrow> 'f"
  fsub :: "'f \<Rightarrow> 'f \<Rightarrow> 'f"
  fdiv :: "'f \<Rightarrow> 'f \<Rightarrow> 'f"

text \<open>The arithmetic that does not round, for concrete instances.\<close>

definition exact_arith :: "real float_arith" where
  "exact_arith =
     \<lparr> nearest = (\<lambda>x. x),
       fpow = (\<lambda>x k. Inr (x powi k)),
       fmul = (\<lambda>x y. x * y),
       fsub = (\<lambda>x y. x - y),
       fdiv = (\<lambda>x y. x / y) \<rparr>"

text \<open>
  The conversion of an \<^verbatim>\<open>int\<close> to a \<^verbatim>\<open>float\<close> raises \<^verbatim>\<open>OverflowError\<close> (``int too
  large to convert to float'') when the \<^verbatim>\<open>int\<close> rounds to \<open>2^1024\<close> or beyond.
\<close>

definition int_too_large :: "int \<Rightarrow> bool" where
  "int_too_large n = (2 ^ 1024 - 2 ^ 970 \<le> \<bar>n\<bar>)"

text \<open>\<^verbatim>\<open>x ** k\<close> for a float \<open>x\<close> and an \<^verbatim>\<open>int\<close> \<open>k\<close>: \<^verbatim>\<open>x ** 0\<close> is \<^verbatim>\<open>1.0\<close>.\<close>

definition float_pow :: "'f float_arith \<Rightarrow> 'f \<Rightarrow> int \<Rightarrow> py_error + 'f" where
  "float_pow fa x k = (if k = 0 then Inr (nearest fa 1) else fpow fa x k)"

text \<open>
  \<^verbatim>\<open>adjusted_probability = strategy.success_probability * (0.9 ** (context.attempt_count - 1))\<close>
\<close>

definition adjusted_probability ::
    "'f float_arith \<Rightarrow> RecoveryStrategy \<Rightarrow> int \<Rightarrow> py_error + 'f" where
  "adjusted_probability fa strategy attempts =
     (case float_pow fa (nearest fa 0.9) (attempts - 1) of
        Inl e \<Rightarrow> Inl e
      | Inr discount \<Rightarrow> Inr (fmul fa (nearest fa (success_probability strategy)) discount))"

text \<open>
  \<^verbatim>\<open>score = adjusted_probability - (strategy.estimated_time / 1000.0)\<close>: the division
  converts the \<^verbatim>\<open>int\<close> to a float first.
\<close>

definition score :: "'f float_arith \<Rightarrow> RecoveryStrategy \<Rightarrow> int \<Rightarrow> py_error + 'f" where
  "score fa strategy attempts =
     (case adjusted_probability fa strategy attempts of
        Inl e \<Rightarrow> Inl e
      | Inr adjusted \<Rightarrow>
          if int_too_large (estimated_time strategy) then Inl OverflowError
          else Inr (fsub fa adjusted
                      (fdiv fa (nearest fa (real_of_int (estimated_time strategy)))
                         (nearest fa 1000))))"

text \<open>
  The loop that pairs each viable strategy with its score, in list order; the first score
  that raises ends it.
\<close>

fun scored_strategies ::
    "'f float_arith \<Rightarrow> RecoveryStrategy list \<Rightarrow> ErrorContext
       \<Rightarrow> py_error + ('f \<times> RecoveryStrategy) list" where
  "scored_strategies fa [] context = Inr []"
| "scored_strategies fa (strategy # rest) context =
     (case score fa strategy (attempt_count context) of
        Inl e \<Rightarrow> Inl e
      | Inr sc \<Rightarrow>
          (case scored_strategies fa rest context of
             Inl e \<Rightarrow> Inl e
           | Inr scored \<Rightarrow> Inr ((sc, strategy) # scored)))"

text \<open>
  \<^verbatim>\<open>list.sort(key=..., reverse=True)\<close>: Python's sort is stable, and with
  \<^verbatim>\<open>reverse=True\<close> it is descending with elements of equal key in their original order.
  On linearly ordered keys every such sort gives the same list; here it is an insertion
  sort that puts an element in front of the first element whose key is not greater.
\<close>

fun insert_reverse :: "('a \<Rightarrow> 'k::linorder) \<Rightarrow> 'a \<Rightarrow> 'a list \<Rightarrow> 'a list" where
  "insert_reverse key x [] = [x]"
| "insert_reverse key x (y # ys) =
     (if key y \<le> key x then x # y # ys else y # insert_reverse key x ys)"

definition sort_reverse :: "('a \<Rightarrow> 'k::linorder) \<Rightarrow> 'a list \<Rightarrow> 'a list" where
  "sort_reverse key xs = foldr (insert_reverse key) xs []"

text \<open>
  \<^verbatim>\<open>_select_best_strategy\<close>. Reading \<^verbatim>\<open>scored_strategies[0]\<close> raises IndexError on an
  empty list.
\<close>

definition select_best_strategy ::
    "('f::linorder) float_arith \<Rightarrow> RecoveryStrategy list \<Rightarrow> ErrorContext
       \<Rightarrow> py_error + RecoveryStrategy" where
  "select_best_strategy fa strategies context =
     (let viable = viable_strategies strategies context in
      if viable = [] then Inr (exhausted_strategy context)
      else
        (case scored_strategies fa viable context of
           Inl e \<Rightarrow> Inl e
         | Inr scored \<Rightarrow>
             (case sort_reverse fst scored of
                [] \<Rightarrow> Inl IndexError
              | best # _ \<Rightarrow> Inr (snd best))))"

subsection \<open>Parameter adjustment\<close>

text \<open>\<^verbatim>\<open>self.parameter_adjustments.get(tool, {}).get(error_type, {})\<close>\<close>

definition lookup_adjustments :: "string \<Rightarrow> ErrorType \<Rightarrow> (string \<times> pyval) list" where
  "lookup_adjustments tool etype =
     (case map_of parameter_adjustments tool of
        None \<Rightarrow> []
      | Some by_type \<Rightarrow> (case map_of by_type etype of None \<Rightarrow> [] | Some adj \<Rightarrow> adj))"

text \<open>The generic adjustments, taken when the looked-up dictionary is empty.\<close>

definition generic_adjustments :: "ErrorType \<Rightarrow> (string \<times> pyval) list" where
  "generic_adjustments etype =
     (if etype = TIMEOUT then [(''timeout'', PStr ''60''), (''threads'', PStr ''5'')]
      else if etype = RATE_LIMITED then [(''delay'', PStr ''2s''), (''threads'', PStr ''3'')]
      else if etype = RESOURCE_EXHAUSTED
        then [(''threads'', PStr ''3''), (''memory_limit'', PStr ''1G'')]
      else [])"

text \<open>
  \<^verbatim>\<open>auto_adjust_parameters\<close>: \<^verbatim>\<open>original_params.copy()\<close> followed by
  \<^verbatim>\<open>update(adjustments)\<close> is the map of the original overridden by the adjustments.
\<close>

definition auto_adjust_parameters ::
    "string \<Rightarrow> ErrorType \<Rightarrow> (string \<rightharpoonup> pyval) \<Rightarrow> (string \<rightharpoonup> pyval)" where
  "auto_adjust_parameters tool etype original_params =
     (let found = lookup_adjustments tool etype;
          adjustments = (if found = [] then generic_adjustments etype else found)
      in original_params ++ map_of adjustments)"

text \<open>
  The adjustments as the specification words them, for comparison with the code: the
  entry declared for the tool and the error kind if there is one; otherwise a generic
  entry that depends on the error kind only and exists for \<^verbatim>\<open>TIMEOUT\<close>,
  \<^verbatim>\<open>RATE_LIMITED\<close> and \<^verbatim>\<open>RESOURCE_EXHAUSTED\<close>; otherwise nothing.
\<close>

definition spec_generic_delta :: "ErrorType \<Rightarrow> (string \<times> pyval) list" where
  "spec_generic_delta etype =
     (case etype of
        TIMEOUT \<Rightarrow> [(''timeout'', PStr ''60''), (''threads'', PStr ''5'')]
      | RATE_LIMITED \<Rightarrow> [(''delay'', PStr ''2s''), (''threads'', PStr ''3'')]
      | RESOURCE_EXHAUSTED \<Rightarrow> [(''threads'', PStr ''3''), (''memory_limit'', PStr ''1G'')]
      | _ \<Rightarrow> [])"

definition spec_applicable_delta :: "string \<Rightarrow> ErrorType \<Rightarrow> (string \<times> pyval) list" where
  "spec_applicable_delta tool etype =
     (case map_of parameter_adjustments tool of
        None \<Rightarrow> spec_generic_delta etype
      | Some by_type \<Rightarrow>
          (case map_of by_type etype of
             None \<Rightarrow> spec_generic_delta etype
           | Some delta \<Rightarrow> delta))"

subsection \<open>Tool substitution\<close>

text \<open>The loop that skips the alternatives excluded by the context flags.\<close>

fun filter_alternatives :: "(string \<rightharpoonup> pyval) \<Rightarrow> string list \<Rightarrow> string list" where
  "filter_alternatives context [] = []"
| "filter_alternatives context (alt # rest) =
     (if truthy (context ''require_no_privileges'') \<and> alt \<in> set [''nmap'', ''masscan'']
        then filter_alternatives context rest
      else if truthy (context ''prefer_faster_tools'') \<and> alt \<in> set [''amass'', ''w3af'']
        then filter_alternatives context rest
      else alt # filter_alternatives context rest)"

definition get_alternative_tool :: "string \<Rightarrow> (string \<rightharpoonup> pyval) \<Rightarrow> string option" where
  "get_alternative_tool failed_tool context =
     (let alts = (case map_of tool_alternatives failed_tool of None \<Rightarrow> [] | Some l \<Rightarrow> l) in
      if alts = [] then None
      else
        (let filtered = filter_alternatives context alts;
             filtered_alternatives = (if filtered = [] then alts else filtered)
         in case filtered_alternatives of [] \<Rightarrow> None | first # _ \<Rightarrow> Some first))"

subsection \<open>The error history\<close>

text \<open>The mutable part of the handler. \<^verbatim>\<open>__init__\<close> sets the size limit to 1000.\<close>

record handler =
  error_history :: "ErrorContext list"
  max_history_size :: int

definition init :: handler where
  "init = \<lparr> error_history = [], max_history_size = 1000 \<rparr>"

text \<open>
  The slice \<^verbatim>\<open>xs[i:]\<close>: a negative start counts from the end and is clipped at the
  beginning of the list; a start of 0 keeps the whole list.
\<close>

definition slice_from :: "int \<Rightarrow> 'a list \<Rightarrow> 'a list" where
  "slice_from i xs =
     (if i < 0 then drop (nat (int (length xs) + i)) xs else drop (nat i) xs)"

definition add_to_history :: "handler \<Rightarrow> ErrorContext \<Rightarrow> handler" where
  "add_to_history h error_context =
     (let history = error_history h @ [error_context] in
      if int (length history) > max_history_size h
      then h\<lparr>error_history := slice_from (- max_history_size h) history\<rparr>
      else h\<lparr>error_history := history\<rparr>)"

subsection \<open>Statistics\<close>

text \<open>
  An entry of \<^verbatim>\<open>recent_errors\<close>; the timestamp stands for its \<^verbatim>\<open>isoformat()\<close> text.
\<close>

record recent_error =
  recent_tool :: string
  recent_error_type :: string
  recent_timestamp :: real

datatype stat_value =
    Count nat
  | Counts "string \<rightharpoonup> nat"
  | Recent "recent_error list"

text \<open>\<^verbatim>\<open>d[k] = d.get(k, 0) + 1\<close>\<close>

definition increment :: "(string \<rightharpoonup> nat) \<Rightarrow> string \<Rightarrow> (string \<rightharpoonup> nat)" where
  "increment d k = d(k \<mapsto> (case d k of None \<Rightarrow> 0 | Some n \<Rightarrow> n) + 1)"

text \<open>
  The loop over the history, on the three accumulators \<^verbatim>\<open>error_counts\<close>,
  \<^verbatim>\<open>tool_errors\<close> and \<^verbatim>\<open>recent_errors\<close>. The clock \<^verbatim>\<open>datetime.now()\<close> is the
  parameter \<open>now\<close>, in seconds, taken to be the same in every iteration.
\<close>

fun count_errors ::
    "real \<Rightarrow> ErrorContext list \<Rightarrow> (string \<rightharpoonup> nat) \<times> (string \<rightharpoonup> nat) \<times> recent_error list
       \<Rightarrow> (string \<rightharpoonup> nat) \<times> (string \<rightharpoonup> nat) \<times> recent_error list" where
  "count_errors now [] acc = acc"
| "count_errors now (error # rest) (error_counts, tool_errors, recent_errors) =
     (let etype = error_type_value (error_type error);
          tool = tool_name error
      in count_errors now rest
           (increment error_counts etype,
            increment tool_errors tool,
            (if now - timestamp error < 3600
             then recent_errors @
                    [\<lparr> recent_tool = tool, recent_error_type = etype,
                       recent_timestamp = timestamp error \<rparr>]
             else recent_errors)))"

text \<open>
  For comparison with the loop: the number of elements of a list per key, with no entry
  for a key that does not occur, and the entry of \<^verbatim>\<open>recent_errors\<close> that an error gives.
\<close>

definition counts_by :: "('a \<Rightarrow> string) \<Rightarrow> 'a list \<Rightarrow> (string \<rightharpoonup> nat)" where
  "counts_by key xs =
     (\<lambda>k. let n = length (filter (\<lambda>x. key x = k) xs) in if n = 0 then None else Some n)"

definition recent_entry :: "ErrorContext \<Rightarrow> recent_error" where
  "recent_entry e =
     \<lparr> recent_tool = tool_name e,
       recent_error_type = error_type_value (error_type e),
       recent_timestamp = timestamp e \<rparr>"

text \<open>\<^verbatim>\<open>get_error_statistics\<close>: the returned dictionary, in insertion order.\<close>

definition get_error_statistics :: "handler \<Rightarrow> real \<Rightarrow> (string \<times> stat_value) list" where
  "get_error_statistics h now =
     (if error_history h = [] then [(''total_errors'', Count 0)]
      else
        (case count_errors now (error_history h) (Map.empty, Map.empty, []) of
           (error_counts, tool_errors, recent_errors) \<Rightarrow>
             [(''total_errors'', Count (length (error_history h))),
              (''error_counts_by_type'', Counts error_counts),
              (''error_counts_by_tool'', Counts tool_errors),
              (''recent_errors_count'', Count (length recent_errors)),
              (''recent_errors'', Recent (slice_from (- 10) recent_errors))]))"

subsection \<open>The facade\<close>

text \<open>
  The \<^verbatim>\<open>context\<close> dictionary of \<^verbatim>\<open>handle_tool_failure\<close>, with its three optional
  entries, and what the call reads from its environment.
\<close>

record failure_context =
  fc_target :: "string option"
  fc_parameters :: "(string \<times> pyval) list option"
  fc_attempt_count :: "int option"

record environment =
  env_now :: real
  env_stack_trace :: string
  env_system_resources :: "(string \<times> pyval) list"

definition handle_tool_failure ::
    "('f::linorder) float_arith \<Rightarrow> handler \<Rightarrow> environment \<Rightarrow> string \<Rightarrow> PyException
       \<Rightarrow> failure_context \<Rightarrow> (py_error + RecoveryStrategy) \<times> handler" where
  "handle_tool_failure fa h env tool error context =
     (let message = str error;
          etype = classify_error message (Some error);
          error_context =
            ErrorContext tool
              (case fc_target context of None \<Rightarrow> ''unknown'' | Some t \<Rightarrow> t)
              (case fc_parameters context of None \<Rightarrow> [] | Some p \<Rightarrow> p)
              etype message
              (case fc_attempt_count context of None \<Rightarrow> 1 | Some n \<Rightarrow> n)
              (env_now env) (env_stack_trace env) (env_system_resources env) [];
          h' = add_to_history h error_context;
          strategies = recovery_strategies etype
      in (select_best_strategy fa strategies error_context, h'))"

section \<open>Properties\<close>

subsection \<open>The first element of the descending stable sort\<close>

lemma hd_insert_reverse:
  "hd (insert_reverse key a ys) = (if ys = [] \<or> key (hd ys) \<le> key a then a else hd ys)"
  by (cases ys) auto

lemma insert_reverse_not_Nil: "insert_reverse key a ys \<noteq> []"
  by (cases ys) auto

lemma sort_reverse_Cons:
  "sort_reverse key (a # xs) = insert_reverse key a (sort_reverse key xs)"
  by (simp add: sort_reverse_def)

lemma sort_reverse_not_Nil: "xs \<noteq> [] \<Longrightarrow> sort_reverse key xs \<noteq> []"
  by (cases xs) (simp_all add: sort_reverse_Cons insert_reverse_not_Nil)

lemma sort_reverse_hd:
  "xs \<noteq> [] \<Longrightarrow>
     \<exists>pre x post. xs = pre @ x # post \<and> hd (sort_reverse key xs) = x
       \<and> (\<forall>y \<in> set pre. key y < key x) \<and> (\<forall>y \<in> set post. key y \<le> key x)"
proof (induction xs)
  case Nil
  then show ?case by simp
next
  case (Cons a xs)
  show ?case
  proof (cases "xs = []")
    case True
    then have "a # xs = [] @ a # [] \<and> hd (sort_reverse key (a # xs)) = a
        \<and> (\<forall>y \<in> set []. key y < key a) \<and> (\<forall>y \<in> set []. key y \<le> key a)"
      by (simp add: sort_reverse_def)
    then show ?thesis by blast
  next
    case False
    then obtain pre x post where
      dec: "xs = pre @ x # post" and hdx: "hd (sort_reverse key xs) = x"
      and pre: "\<forall>y \<in> set pre. key y < key x" and post: "\<forall>y \<in> set post. key y \<le> key x"
      using Cons.IH by blast
    have ne: "sort_reverse key xs \<noteq> []" using False by (rule sort_reverse_not_Nil)
    have hd_new: "hd (sort_reverse key (a # xs)) = (if key x \<le> key a then a else x)"
      using ne hdx by (simp add: sort_reverse_Cons hd_insert_reverse)
    show ?thesis
    proof (cases "key x \<le> key a")
      case True
      have "\<forall>y \<in> set xs. key y \<le> key a"
      proof
        fix y assume "y \<in> set xs"
        then have "y \<in> set pre \<or> y = x \<or> y \<in> set post" using dec by auto
        then have "key y \<le> key x" using pre post by (auto intro: less_imp_le)
        then show "key y \<le> key a" using True by (rule order_trans)
      qed
      moreover have "hd (sort_reverse key (a # xs)) = a" using True hd_new by simp
      ultimately have "a # xs = [] @ a # xs \<and> hd (sort_reverse key (a # xs)) = a
          \<and> (\<forall>y \<in> set []. key y < key a) \<and> (\<forall>y \<in> set xs. key y \<le> key a)"
        by simp
      then show ?thesis by blast
    next
      case False
      then have "key a < key x" by simp
      then have "\<forall>y \<in> set (a # pre). key y < key x" using pre by simp
      moreover have "a # xs = (a # pre) @ x # post" using dec by simp
      moreover have "hd (sort_reverse key (a # xs)) = x" using False hd_new by simp
      ultimately have "a # xs = (a # pre) @ x # post \<and> hd (sort_reverse key (a # xs)) = x
          \<and> (\<forall>y \<in> set (a # pre). key y < key x) \<and> (\<forall>y \<in> set post. key y \<le> key x)"
        using post by simp
      then show ?thesis by blast
    qed
  qed
qed

lemma sort_reverse_first:
  assumes "xs \<noteq> []"
  shows "\<exists>pre x post rest. xs = pre @ x # post \<and> sort_reverse key xs = x # rest
       \<and> (\<forall>y \<in> set pre. key y < key x) \<and> (\<forall>y \<in> set post. key y \<le> key x)"
proof -
  obtain pre x post where
    dec: "xs = pre @ x # post" and hdx: "hd (sort_reverse key xs) = x"
    and pre: "\<forall>y \<in> set pre. key y < key x" and post: "\<forall>y \<in> set post. key y \<le> key x"
    using sort_reverse_hd[OF assms, of key] by blast
  have "sort_reverse key xs \<noteq> []" using assms by (rule sort_reverse_not_Nil)
  then obtain rest where "sort_reverse key xs = x # rest"
    using hdx by (cases "sort_reverse key xs") auto
  then show ?thesis using dec pre post by blast
qed

subsection \<open>Exhaustion\<close>

text \<open>
  C1, as the specification states it, fails in the text of the message: the message of
  the built strategy begins with a capital letter, ``All recovery strategies exhausted for
  <tool>'', and is not the specification's ``all recovery strategies exhausted for <tool>''.
\<close>

theorem select_exhausted_counterexample:
  "select_best_strategy exact_arith (recovery_strategies RATE_LIMITED)
      (ErrorContext ''gobuster'' ''example.org'' [] RATE_LIMITED ''rate limit'' 6 0 [] [] [])
     = Inr \<lparr> action = ESCALATE_TO_HUMAN,
             parameters =
               [(''message'', PStr ''All recovery strategies exhausted for gobuster''),
                (''urgency'', PStr ''high'')],
             max_attempts = 1, backoff_multiplier = 1,
             success_probability = 0.9, estimated_time = 300 \<rparr>
   \<and> PStr ''All recovery strategies exhausted for gobuster''
       \<noteq> PStr ''all recovery strategies exhausted for gobuster''"
  by (simp add: select_best_strategy_def viable_strategies_def exhausted_strategy_def)

text \<open>
  C1, amended. Whatever the strategy list and the floating-point arithmetic, when the
  attempt count of the context exceeds \<^verbatim>\<open>max_attempts\<close> of every strategy in the list,
  selection does not raise and returns a freshly built \<^verbatim>\<open>ESCALATE_TO_HUMAN\<close> strategy
  whose parameters are the message ``All recovery strategies exhausted for <tool>'' and
  urgency ``high'', with success probability 0.9 and estimated time 300 seconds.
\<close>

theorem select_exhausted:
  assumes "\<forall>s \<in> set strategies. max_attempts s < attempt_count context"
  shows "\<exists>r. select_best_strategy fa strategies context = Inr r
           \<and> action r = ESCALATE_TO_HUMAN
           \<and> map_of (parameters r) ''message''
               = Some (PStr (''All recovery strategies exhausted for '' @ tool_name context))
           \<and> map_of (parameters r) ''urgency'' = Some (PStr ''high'')
           \<and> dom (map_of (parameters r)) = {''message'', ''urgency''}
           \<and> success_probability r = 0.9
           \<and> estimated_time r = 300"
proof -
  have "viable_strategies strategies context = []"
    using assms by (auto simp: viable_strategies_def filter_empty_conv)
  then have "select_best_strategy fa strategies context = Inr (exhausted_strategy context)"
    by (simp add: select_best_strategy_def)
  then show ?thesis
    by (auto simp: exhausted_strategy_def)
qed

theorem select_exhausted_witness:
  "list_all
     (\<lambda>s. max_attempts s < attempt_count
         (ErrorContext ''gobuster'' ''example.org'' [] RATE_LIMITED ''rate limit'' 6 0 [] [] []))
     (recovery_strategies RATE_LIMITED)
   \<and> (\<exists>r. select_best_strategy exact_arith (recovery_strategies RATE_LIMITED)
           (ErrorContext ''gobuster'' ''example.org'' [] RATE_LIMITED ''rate limit'' 6 0 [] [] [])
             = Inr r
          \<and> action r = ESCALATE_TO_HUMAN
          \<and> map_of (parameters r) ''message''
               = Some (PStr ''All recovery strategies exhausted for gobuster'')
          \<and> map_of (parameters r) ''urgency'' = Some (PStr ''high'')
          \<and> success_probability r = 0.9
          \<and> estimated_time r = 300)"
proof -
  let ?c = "ErrorContext ''gobuster'' ''example.org'' [] RATE_LIMITED ''rate limit'' 6 0 [] [] []"
  have h: "\<forall>s \<in> set (recovery_strategies RATE_LIMITED). max_attempts s < attempt_count ?c"
    by simp
  from select_exhausted[OF h, of exact_arith]
  have "\<exists>r. select_best_strategy exact_arith (recovery_strategies RATE_LIMITED) ?c = Inr r
          \<and> action r = ESCALATE_TO_HUMAN
          \<and> map_of (parameters r) ''message''
               = Some (PStr ''All recovery strategies exhausted for gobuster'')
          \<and> map_of (parameters r) ''urgency'' = Some (PStr ''high'')
          \<and> success_probability r = 0.9
          \<and> estimated_time r = 300"
    by auto
  moreover have "list_all (\<lambda>s. max_attempts s < attempt_count ?c)
      (recovery_strategies RATE_LIMITED)"
    by simp
  ultimately show ?thesis by simp
qed

subsection \<open>Selection by score\<close>

text \<open>
  The scoring loop returns the scores of all strategies when none raises, and raises when
  one does; a filtered list splits the original list at each of its elements.
\<close>

lemma scored_strategies_ok:
  "\<forall>s \<in> set xs. \<exists>x. score fa s (attempt_count context) = Inr x \<Longrightarrow>
     scored_strategies fa xs context
       = Inr (map (\<lambda>s. (projr (score fa s (attempt_count context)), s)) xs)"
  by (induction xs) auto

lemma scored_strategies_error:
  "s \<in> set xs \<Longrightarrow> score fa s (attempt_count context) = Inl e \<Longrightarrow>
     \<exists>e'. scored_strategies fa xs context = Inl e'"
proof (induction xs)
  case Nil
  then show ?case by simp
next
  case (Cons a xs)
  show ?case
  proof (cases "score fa a (attempt_count context)")
    case (Inl e1)
    then show ?thesis by simp
  next
    case (Inr x)
    then have "s \<in> set xs" using Cons.prems by auto
    then obtain e' where "scored_strategies fa xs context = Inl e'"
      using Cons.IH Cons.prems(2) by blast
    then show ?thesis using Inr by simp
  qed
qed

lemma filter_decompose:
  "filter P xs = pre @ b # post \<Longrightarrow>
     \<exists>pre' post'. xs = pre' @ b # post' \<and> filter P pre' = pre \<and> filter P post' = post \<and> P b"
proof (induction xs arbitrary: pre)
  case Nil
  then show ?case by simp
next
  case (Cons a xs)
  show ?case
  proof (cases "P a")
    case False
    then have "filter P xs = pre @ b # post" using Cons.prems by simp
    then obtain pre' post' where
      "xs = pre' @ b # post'" "filter P pre' = pre" "filter P post' = post" "P b"
      using Cons.IH by blast
    then have "a # xs = (a # pre') @ b # post' \<and> filter P (a # pre') = pre
        \<and> filter P post' = post \<and> P b"
      using False by simp
    then show ?thesis by blast
  next
    case True
    then have eq: "a # filter P xs = pre @ b # post" using Cons.prems by simp
    show ?thesis
    proof (cases pre)
      case Nil
      then have "a # xs = [] @ b # xs \<and> filter P [] = pre \<and> filter P xs = post \<and> P b"
        using eq True by simp
      then show ?thesis by blast
    next
      case (Cons p pre2)
      then have "filter P xs = pre2 @ b # post" and pa: "p = a" using eq by simp_all
      then obtain pre' post' where
        "xs = pre' @ b # post'" "filter P pre' = pre2" "filter P post' = post" "P b"
        using Cons.IH by blast
      then have "a # xs = (a # pre') @ b # post' \<and> filter P (a # pre') = pre
          \<and> filter P post' = post \<and> P b"
        using True Cons pa by simp
      then show ?thesis by blast
    qed
  qed
qed

lemma select_viable:
  assumes ne: "viable_strategies strategies context \<noteq> []"
    and ok: "\<forall>s \<in> set (viable_strategies strategies context).
               \<exists>x. score fa s (attempt_count context) = Inr x"
  shows "\<exists>pre best post.
           viable_strategies strategies context = pre @ best # post
         \<and> select_best_strategy fa strategies context = Inr best
         \<and> (\<forall>s \<in> set pre. projr (score fa s (attempt_count context))
                             < projr (score fa best (attempt_count context)))
         \<and> (\<forall>s \<in> set post. projr (score fa s (attempt_count context))
                             \<le> projr (score fa best (attempt_count context)))"
proof -
  let ?n = "attempt_count context"
  let ?v = "viable_strategies strategies context"
  let ?f = "\<lambda>s. (projr (score fa s ?n), s)"
  let ?sc = "map ?f ?v"
  have sc: "scored_strategies fa ?v context = Inr ?sc"
    using ok by (rule scored_strategies_ok)
  have "?sc \<noteq> []" using ne by simp
  then obtain pre x post rest where
    dec: "?sc = pre @ x # post" and srt: "sort_reverse fst ?sc = x # rest"
    and pre: "\<forall>y \<in> set pre. fst y < fst x" and post: "\<forall>y \<in> set post. fst y \<le> fst x"
    using sort_reverse_first[of ?sc fst] by blast
  from dec obtain vpre b vpost where
    vdec: "?v = vpre @ b # vpost" and p1: "pre = map ?f vpre"
    and x: "x = ?f b" and p2: "post = map ?f vpost"
    by (auto simp: map_eq_append_conv map_eq_Cons_conv)
  have "select_best_strategy fa strategies context = Inr b"
    using ne sc srt x by (simp add: select_best_strategy_def)
  moreover have "\<forall>s \<in> set vpre. projr (score fa s ?n) < projr (score fa b ?n)"
    using pre p1 x by auto
  moreover have "\<forall>s \<in> set vpost. projr (score fa s ?n) \<le> projr (score fa b ?n)"
    using post p2 x by auto
  ultimately show ?thesis using vdec by blast
qed

lemma small_int_converts: "\<bar>n\<bar> \<le> 1000000 \<Longrightarrow> \<not> int_too_large n"
  by (simp add: int_too_large_def)

lemma score_exact:
  "\<not> int_too_large (estimated_time s) \<Longrightarrow>
     score exact_arith s n
       = Inr (success_probability s * 0.9 powi (n - 1) - real_of_int (estimated_time s) / 1000)"
  by (simp add: score_def adjusted_probability_def float_pow_def exact_arith_def)

text \<open>
  C2, as the specification states it, fails: selection does not return a strategy for
  every list in which some strategy passes the filter. The score divides the estimated
  time, an \<^verbatim>\<open>int\<close>, by the float \<^verbatim>\<open>1000.0\<close>, and the conversion of an \<^verbatim>\<open>int\<close> as large
  as \<open>2^1024\<close> to a float raises \<^verbatim>\<open>OverflowError\<close>.
\<close>

theorem select_best_overflow_counterexample:
  "select_best_strategy exact_arith
     [\<lparr> action = RETRY_WITH_BACKOFF, parameters = [], max_attempts = 3,
        backoff_multiplier = 2, success_probability = 0.7, estimated_time = 2 ^ 1024 \<rparr>]
     (ErrorContext ''nmap'' ''example.org'' [] TIMEOUT ''timed out'' 1 0 [] [] [])
   = Inl OverflowError"
  by (simp add: select_best_strategy_def viable_strategies_def score_def
        adjusted_probability_def float_pow_def exact_arith_def int_too_large_def)

text \<open>
  C2, amended. Take a non-empty strategy list in which some strategy has
  \<^verbatim>\<open>max_attempts >= attempt_count\<close>, and any floating-point arithmetic. The score of a
  strategy is computed in that arithmetic as
  \<^verbatim>\<open>success_probability * 0.9 ** (attempt_count - 1) - estimated_time / 1000.0\<close>; the power
  and the conversion of the estimated time may raise \<^verbatim>\<open>OverflowError\<close>. If the score of
  every strategy that passes the filter \<^verbatim>\<open>attempt_count <= max_attempts\<close> is computed without
  an error, selection returns a strategy of the list that passes the filter and whose
  computed score is the greatest among the strategies that pass it; among those of greatest
  computed score it is the earliest of the list, as every filtered strategy before it has a
  strictly smaller computed score. If the score of some strategy that passes the filter
  raises, selection raises.
\<close>

theorem select_best:
  assumes "strategies \<noteq> []"
    and "\<exists>s \<in> set strategies. attempt_count context \<le> max_attempts s"
  shows "((\<forall>s \<in> set strategies. attempt_count context \<le> max_attempts s \<longrightarrow>
             (\<exists>x. score fa s (attempt_count context) = Inr x)) \<longrightarrow>
          (\<exists>pre best post.
              select_best_strategy fa strategies context = Inr best
            \<and> strategies = pre @ best # post
            \<and> attempt_count context \<le> max_attempts best
            \<and> (\<forall>s \<in> set pre. attempt_count context \<le> max_attempts s \<longrightarrow>
                 (\<exists>x y. score fa s (attempt_count context) = Inr x
                      \<and> score fa best (attempt_count context) = Inr y \<and> x < y))
            \<and> (\<forall>s \<in> set post. attempt_count context \<le> max_attempts s \<longrightarrow>
                 (\<exists>x y. score fa s (attempt_count context) = Inr x
                      \<and> score fa best (attempt_count context) = Inr y \<and> x \<le> y))))
       \<and> ((\<exists>s \<in> set strategies. attempt_count context \<le> max_attempts s
              \<and> (\<exists>e. score fa s (attempt_count context) = Inl e)) \<longrightarrow>
          (\<exists>e. select_best_strategy fa strategies context = Inl e))
       \<and> (\<forall>s. score fa s (attempt_count context) =
            (case float_pow fa (nearest fa 0.9) (attempt_count context - 1) of
               Inl e \<Rightarrow> Inl e
             | Inr discount \<Rightarrow>
                 if int_too_large (estimated_time s) then Inl OverflowError
                 else Inr (fsub fa (fmul fa (nearest fa (success_probability s)) discount)
                             (fdiv fa (nearest fa (real_of_int (estimated_time s)))
                                (nearest fa 1000)))))"
proof (intro conjI impI)
  let ?n = "attempt_count context"
  let ?P = "\<lambda>s. ?n \<le> max_attempts s"
  have ne: "viable_strategies strategies context \<noteq> []"
    using assms(2) by (auto simp: viable_strategies_def filter_empty_conv)
  {
    assume ok: "\<forall>s \<in> set strategies. ?P s \<longrightarrow> (\<exists>x. score fa s ?n = Inr x)"
    then have okv: "\<forall>s \<in> set (viable_strategies strategies context). \<exists>x. score fa s ?n = Inr x"
      by (simp add: viable_strategies_def)
    obtain vpre best vpost where
      vdec: "viable_strategies strategies context = vpre @ best # vpost"
      and sel: "select_best_strategy fa strategies context = Inr best"
      and vpre: "\<forall>s \<in> set vpre. projr (score fa s ?n) < projr (score fa best ?n)"
      and vpost: "\<forall>s \<in> set vpost. projr (score fa s ?n) \<le> projr (score fa best ?n)"
      using select_viable[OF ne okv] by blast
    from vdec have "filter ?P strategies = vpre @ best # vpost"
      by (simp add: viable_strategies_def)
    then obtain pre post where
      dec: "strategies = pre @ best # post" and fpre: "filter ?P pre = vpre"
      and fpost: "filter ?P post = vpost" and vb: "?P best"
      using filter_decompose[of ?P strategies vpre best vpost] by blast
    have val: "\<exists>x. score fa s ?n = Inr x \<and> projr (score fa s ?n) = x"
      if "s \<in> set strategies" "?P s" for s
      using ok that by auto
    have "best \<in> set strategies" using dec by simp
    then obtain y where y: "score fa best ?n = Inr y" "projr (score fa best ?n) = y"
      using val vb by blast
    have a: "\<forall>s \<in> set pre. ?P s \<longrightarrow>
        (\<exists>x y. score fa s ?n = Inr x \<and> score fa best ?n = Inr y \<and> x < y)"
    proof (intro ballI impI)
      fix s assume s: "s \<in> set pre" "?P s"
      then have "s \<in> set strategies" using dec by simp
      then obtain x where x: "score fa s ?n = Inr x" "projr (score fa s ?n) = x"
        using val s by blast
      have "s \<in> set vpre" using s fpre by auto
      then have "x < y" using vpre x y by auto
      then show "\<exists>x y. score fa s ?n = Inr x \<and> score fa best ?n = Inr y \<and> x < y"
        using x y by blast
    qed
    have b: "\<forall>s \<in> set post. ?P s \<longrightarrow>
        (\<exists>x y. score fa s ?n = Inr x \<and> score fa best ?n = Inr y \<and> x \<le> y)"
    proof (intro ballI impI)
      fix s assume s: "s \<in> set post" "?P s"
      then have "s \<in> set strategies" using dec by simp
      then obtain x where x: "score fa s ?n = Inr x" "projr (score fa s ?n) = x"
        using val s by blast
      have "s \<in> set vpost" using s fpost by auto
      then have "x \<le> y" using vpost x y by auto
      then show "\<exists>x y. score fa s ?n = Inr x \<and> score fa best ?n = Inr y \<and> x \<le> y"
        using x y by blast
    qed
    show "\<exists>pre best post.
              select_best_strategy fa strategies context = Inr best
            \<and> strategies = pre @ best # post
            \<and> ?P best
            \<and> (\<forall>s \<in> set pre. ?P s \<longrightarrow>
                 (\<exists>x y. score fa s ?n = Inr x \<and> score fa best ?n = Inr y \<and> x < y))
            \<and> (\<forall>s \<in> set post. ?P s \<longrightarrow>
                 (\<exists>x y. score fa s ?n = Inr x \<and> score fa best ?n = Inr y \<and> x \<le> y))"
      using sel dec vb a b by blast
  }
  {
    assume "\<exists>s \<in> set strategies. ?P s \<and> (\<exists>e. score fa s ?n = Inl e)"
    then obtain s e0 where "s \<in> set (viable_strategies strategies context)"
      "score fa s ?n = Inl e0"
      by (auto simp: viable_strategies_def)
    then obtain e where "scored_strategies fa (viable_strategies strategies context) context = Inl e"
      using scored_strategies_error by blast
    then have "select_best_strategy fa strategies context = Inl e"
      using ne by (simp add: select_best_strategy_def)
    then show "\<exists>e. select_best_strategy fa strategies context = Inl e" by blast
  }
  show "\<forall>s. score fa s ?n =
            (case float_pow fa (nearest fa 0.9) (?n - 1) of
               Inl e \<Rightarrow> Inl e
             | Inr discount \<Rightarrow>
                 if int_too_large (estimated_time s) then Inl OverflowError
                 else Inr (fsub fa (fmul fa (nearest fa (success_probability s)) discount)
                             (fdiv fa (nearest fa (real_of_int (estimated_time s)))
                                (nearest fa 1000))))"
    by (simp add: score_def adjusted_probability_def split: sum.splits)
qed

theorem select_best_witness:
  "recovery_strategies RATE_LIMITED \<noteq> []
   \<and> (\<exists>s \<in> set (recovery_strategies RATE_LIMITED).
         attempt_count (ErrorContext ''gobuster'' ''example.org'' [] RATE_LIMITED ''rate limit'' 1 0 [] [] [])
           \<le> max_attempts s)
   \<and> list_all (\<lambda>s. \<exists>x. score exact_arith s 1 = Inr x) (recovery_strategies RATE_LIMITED)
   \<and> (\<exists>pre best post.
         select_best_strategy exact_arith (recovery_strategies RATE_LIMITED)
           (ErrorContext ''gobuster'' ''example.org'' [] RATE_LIMITED ''rate limit'' 1 0 [] [] [])
             = Inr best
       \<and> recovery_strategies RATE_LIMITED = pre @ best # post
       \<and> (\<forall>s \<in> set pre. 1 \<le> max_attempts s \<longrightarrow>
            (\<exists>x y. score exact_arith s 1 = Inr x \<and> score exact_arith best 1 = Inr y \<and> x < y))
       \<and> (\<forall>s \<in> set post. 1 \<le> max_attempts s \<longrightarrow>
            (\<exists>x y. score exact_arith s 1 = Inr x \<and> score exact_arith best 1 = Inr y \<and> x \<le> y)))"
proof -
  let ?c = "ErrorContext ''gobuster'' ''example.org'' [] RATE_LIMITED ''rate limit'' 1 0 [] [] []"
  have h1: "recovery_strategies RATE_LIMITED \<noteq> []" by simp
  have h2: "\<exists>s \<in> set (recovery_strategies RATE_LIMITED). attempt_count ?c \<le> max_attempts s"
    by simp
  have n: "attempt_count ?c = 1" by simp
  have ex: "\<exists>x. score exact_arith s 1 = Inr x" if "\<bar>estimated_time s\<bar> \<le> 1000000" for s
    using score_exact[OF small_int_converts[OF that]] by blast
  have la: "list_all (\<lambda>s. \<exists>x. score exact_arith s 1 = Inr x) (recovery_strategies RATE_LIMITED)"
    by (simp add: ex)
  then have ok: "\<forall>s \<in> set (recovery_strategies RATE_LIMITED). 1 \<le> max_attempts s \<longrightarrow>
      (\<exists>x. score exact_arith s 1 = Inr x)"
    by (simp add: list_all_iff)
  from select_best[OF h1 h2, of exact_arith] ok obtain pre best post where
    "select_best_strategy exact_arith (recovery_strategies RATE_LIMITED) ?c = Inr best"
    "recovery_strategies RATE_LIMITED = pre @ best # post"
    "\<forall>s \<in> set pre. 1 \<le> max_attempts s \<longrightarrow>
       (\<exists>x y. score exact_arith s 1 = Inr x \<and> score exact_arith best 1 = Inr y \<and> x < y)"
    "\<forall>s \<in> set post. 1 \<le> max_attempts s \<longrightarrow>
       (\<exists>x y. score exact_arith s 1 = Inr x \<and> score exact_arith best 1 = Inr y \<and> x \<le> y)"
    unfolding n by blast
  then have "\<exists>pre best post.
         select_best_strategy exact_arith (recovery_strategies RATE_LIMITED) ?c = Inr best
       \<and> recovery_strategies RATE_LIMITED = pre @ best # post
       \<and> (\<forall>s \<in> set pre. 1 \<le> max_attempts s \<longrightarrow>
            (\<exists>x y. score exact_arith s 1 = Inr x \<and> score exact_arith best 1 = Inr y \<and> x < y))
       \<and> (\<forall>s \<in> set post. 1 \<le> max_attempts s \<longrightarrow>
            (\<exists>x y. score exact_arith s 1 = Inr x \<and> score exact_arith best 1 = Inr y \<and> x \<le> y))"
    by blast
  with h1 h2 la show ?thesis by blast
qed

subsection \<open>Classification\<close>

text \<open>
  The loop over the pattern table returns the kind of the first pattern that matches, and
  a literal search is the occurrence of the literal in the text up to letter case.
\<close>

lemma check_error_patterns_find:
  "check_error_patterns ps t =
     (case find (\<lambda>(pattern, kind). re_search pattern t) ps of
        None \<Rightarrow> UNKNOWN
      | Some (pattern, kind) \<Rightarrow> kind)"
  by (induction ps t rule: check_error_patterns.induct) simp_all

lemma match_here_iff:
  "match_here lit t \<longleftrightarrow> (\<exists>mid post. t = mid @ post \<and> map lower_char mid = map lower_char lit)"
proof (induction lit t rule: match_here.induct)
  case (1 t)
  then show ?case by simp
next
  case (2 p ps)
  then show ?case by simp
next
  case (3 p ps c cs)
  show ?case
  proof
    assume "match_here (p # ps) (c # cs)"
    then have pc: "lower_char p = lower_char c" and "match_here ps cs" by simp_all
    then obtain mid post where "cs = mid @ post" "map lower_char mid = map lower_char ps"
      using 3 by blast
    then have "c # cs = (c # mid) @ post \<and> map lower_char (c # mid) = map lower_char (p # ps)"
      using pc by simp
    then show "\<exists>mid post. c # cs = mid @ post \<and> map lower_char mid = map lower_char (p # ps)"
      by blast
  next
    assume "\<exists>mid post. c # cs = mid @ post \<and> map lower_char mid = map lower_char (p # ps)"
    then obtain mid post where eq: "c # cs = mid @ post"
      and m: "map lower_char mid = map lower_char (p # ps)" by blast
    from m obtain m0 mid' where mid: "mid = m0 # mid'" by (cases mid) auto
    with eq m have "m0 = c" "cs = mid' @ post" "lower_char c = lower_char p"
      "map lower_char mid' = map lower_char ps" by simp_all
    then show "match_here (p # ps) (c # cs)" using 3 by auto
  qed
qed

lemma search_literal_iff:
  "search_literal lit t \<longleftrightarrow> (\<exists>pre rest. t = pre @ rest \<and> match_here lit rest)"
proof (induction t)
  case Nil
  then show ?case by simp
next
  case (Cons c cs)
  show ?case
  proof
    assume "search_literal lit (c # cs)"
    then consider "match_here lit (c # cs)" | "search_literal lit cs" by auto
    then show "\<exists>pre rest. c # cs = pre @ rest \<and> match_here lit rest"
    proof cases
      case 1
      then have "c # cs = [] @ (c # cs) \<and> match_here lit (c # cs)" by simp
      then show ?thesis by blast
    next
      case 2
      then obtain pre rest where "cs = pre @ rest" "match_here lit rest" using Cons by blast
      then have "c # cs = (c # pre) @ rest \<and> match_here lit rest" by simp
      then show ?thesis by blast
    qed
  next
    assume "\<exists>pre rest. c # cs = pre @ rest \<and> match_here lit rest"
    then obtain pre rest where eq: "c # cs = pre @ rest" and m: "match_here lit rest" by blast
    show "search_literal lit (c # cs)"
    proof (cases pre)
      case Nil
      then have "match_here lit (c # cs)" using eq m by simp
      then show ?thesis by simp
    next
      case (Cons p pre')
      then have "cs = pre' @ rest" using eq by simp
      then have "search_literal lit cs" using m Cons.IH by blast
      then show ?thesis by simp
    qed
  qed
qed

lemma search_literal_suffix:
  assumes "search_literal (a @ b) t"
  shows "search_literal b t"
proof -
  from assms obtain pre rest where t: "t = pre @ rest" and "match_here (a @ b) rest"
    using search_literal_iff by blast
  then obtain mid post where rest: "rest = mid @ post"
    and m: "map lower_char mid = map lower_char a @ map lower_char b"
    using match_here_iff by auto
  from m obtain m1 m2 where mid: "mid = m1 @ m2" and m2: "map lower_char m2 = map lower_char b"
    by (auto simp: map_eq_append_conv)
  have "match_here b (m2 @ post)" using m2 match_here_iff by blast
  moreover have "t = (pre @ m1) @ (m2 @ post)" using t rest mid by simp
  ultimately show ?thesis using search_literal_iff by blast
qed

lemma lower_char_idem: "lower_char (lower_char c) = lower_char c"
  by (cases c) (auto simp: lower_char_def Let_def)

lemma classify_lower: "classify_error (lower message) exception = classify_error message exception"
  by (simp add: classify_error_def lower_def comp_def lower_char_idem)

text \<open>
  C3. Classification is a total function. With an exception that is an instance of
  \<^verbatim>\<open>TimeoutError\<close>, \<^verbatim>\<open>PermissionError\<close>, \<^verbatim>\<open>ConnectionError\<close> or
  \<^verbatim>\<open>FileNotFoundError\<close>, tested in this order, it returns \<^verbatim>\<open>TIMEOUT\<close>,
  \<^verbatim>\<open>PERMISSION_DENIED\<close>, \<^verbatim>\<open>NETWORK_UNREACHABLE\<close> or \<^verbatim>\<open>TOOL_NOT_FOUND\<close> whatever the
  message is. Otherwise it returns the kind of the first pattern of the table, in the order
  of the table, that is found in the lower-cased message, and \<^verbatim>\<open>UNKNOWN\<close> when there is
  none. The result depends on the message only up to letter case. Without an exception,
  ``Connection timed out'' is a timeout, ``Permission denied: /etc/x'' is a denied
  permission and ``429 Too Many Requests'' is a rate limit, in any letter case.
\<close>

theorem classify_error_total:
  "classify_error message exception =
     (let first_match =
        (case find (\<lambda>(pattern, kind). re_search pattern (lower message)) error_patterns of
           None \<Rightarrow> UNKNOWN
         | Some (pattern, kind) \<Rightarrow> kind)
      in case exception of
           None \<Rightarrow> first_match
         | Some e \<Rightarrow>
             if isinstance e TimeoutError then TIMEOUT
             else if isinstance e PermissionError then PERMISSION_DENIED
             else if isinstance e ConnectionError then NETWORK_UNREACHABLE
             else if isinstance e FileNotFoundError then TOOL_NOT_FOUND
             else first_match)
   \<and> classify_error (lower message) exception = classify_error message exception
   \<and> classify_error ''Connection timed out'' None = TIMEOUT
   \<and> classify_error ''Permission denied: /etc/x'' None = PERMISSION_DENIED
   \<and> classify_error ''429 Too Many Requests'' None = RATE_LIMITED
   \<and> classify_error ''CONNECTION TIMED OUT'' None = TIMEOUT
   \<and> classify_error ''permission DENIED: /etc/x'' None = PERMISSION_DENIED
   \<and> classify_error ''429 too many requests'' None = RATE_LIMITED"
proof -
  have main: "classify_error message exception =
     (let first_match =
        (case find (\<lambda>(pattern, kind). re_search pattern (lower message)) error_patterns of
           None \<Rightarrow> UNKNOWN
         | Some (pattern, kind) \<Rightarrow> kind)
      in case exception of
           None \<Rightarrow> first_match
         | Some e \<Rightarrow>
             if isinstance e TimeoutError then TIMEOUT
             else if isinstance e PermissionError then PERMISSION_DENIED
             else if isinstance e ConnectionError then NETWORK_UNREACHABLE
             else if isinstance e FileNotFoundError then TOOL_NOT_FOUND
             else first_match)"
    by (cases exception) (simp_all add: classify_error_def check_error_patterns_find Let_def)
  have e1: "classify_error ''Connection timed out'' None = TIMEOUT" by code_simp
  have e2: "classify_error ''Permission denied: /etc/x'' None = PERMISSION_DENIED" by code_simp
  have e3: "classify_error ''429 Too Many Requests'' None = RATE_LIMITED" by code_simp
  have e4: "classify_error ''CONNECTION TIMED OUT'' None = TIMEOUT" by code_simp
  have e5: "classify_error ''permission DENIED: /etc/x'' None = PERMISSION_DENIED" by code_simp
  have e6: "classify_error ''429 too many requests'' None = RATE_LIMITED" by code_simp
  from main classify_lower e1 e2 e3 e4 e5 e6 show ?thesis by (intro conjI)
qed

theorem classify_error_total_witness:
  "classify_error ''connection refused'' (Some (PyException [PermissionError, TimeoutError] ''connection refused''))
     = TIMEOUT
   \<and> classify_error ''Connection timed out'' (Some (PyException [FileNotFoundError] ''Connection timed out''))
     = TOOL_NOT_FOUND"
  using classify_error_total[of "''connection refused''"
      "Some (PyException [PermissionError, TimeoutError] ''connection refused'')"]
    classify_error_total[of "''Connection timed out''"
      "Some (PyException [FileNotFoundError] ''Connection timed out'')"]
  by (simp add: isinstance_def)

subsection \<open>The shadowed pattern ``host not found''\<close>

lemma check_error_patterns_skip:
  "\<forall>(p, k) \<in> set pre. \<not> re_search p t \<Longrightarrow>
     check_error_patterns (pre @ rest) t = check_error_patterns rest t"
  by (induction pre) auto

lemma check_error_patterns_upto:
  "re_search p t \<Longrightarrow> check_error_patterns (pre @ (p, k) # rest) t \<in> insert k (snd ` set pre)"
proof (induction pre)
  case Nil
  then show ?case by simp
next
  case (Cons a pre)
  obtain q j where a: "a = (q, j)" by (cases a)
  show ?case
  proof (cases "re_search q t")
    case True
    then show ?thesis using a by simp
  next
    case False
    then have "check_error_patterns ((a # pre) @ (p, k) # rest) t
        = check_error_patterns (pre @ (p, k) # rest) t"
      using a by simp
    then show ?thesis using Cons by auto
  qed
qed

lemma error_patterns_split:
  "error_patterns = take 8 error_patterns
     @ (''command not found|no such file or directory|not found'', TOOL_NOT_FOUND)
     # drop 9 error_patterns"
  by (simp add: error_patterns_def)

lemma kinds_before_not_found:
  "snd ` set (take 8 error_patterns)
     = {TIMEOUT, PERMISSION_DENIED, NETWORK_UNREACHABLE, RATE_LIMITED}"
  by (auto simp: error_patterns_def)

lemma not_found_alternatives:
  "alternatives ''command not found|no such file or directory|not found''
     = [''command not found'', ''no such file or directory'', ''not found'']"
  by simp

lemma host_not_found_matches:
  assumes "search_literal ''host not found'' t"
  shows "re_search ''command not found|no such file or directory|not found'' t"
proof -
  have "search_literal (''host '' @ ''not found'') t" using assms by simp
  then have "search_literal ''not found'' t" by (rule search_literal_suffix)
  then show ?thesis unfolding re_search_def not_found_alternatives by simp
qed

lemma contains_search_literal:
  assumes "t = pre @ lit @ post"
  shows "search_literal lit t"
proof -
  have "match_here lit (lit @ post)" using match_here_iff by blast
  then show ?thesis using assms search_literal_iff by blast
qed

lemma host_not_found_decided_early:
  assumes "search_literal ''host not found'' (lower message)"
  shows "classify_error message exception
           \<in> {TIMEOUT, PERMISSION_DENIED, NETWORK_UNREACHABLE, RATE_LIMITED, TOOL_NOT_FOUND}"
proof -
  let ?t = "lower message"
  let ?p = "''command not found|no such file or directory|not found''"
  have m: "re_search ?p ?t" using assms by (rule host_not_found_matches)
  have "check_error_patterns error_patterns ?t
      \<in> insert TOOL_NOT_FOUND (snd ` set (take 8 error_patterns))"
    using check_error_patterns_upto[OF m, of "take 8 error_patterns" TOOL_NOT_FOUND
        "drop 9 error_patterns"] error_patterns_split by simp
  then have pat: "check_error_patterns error_patterns ?t
      \<in> {TIMEOUT, PERMISSION_DENIED, NETWORK_UNREACHABLE, RATE_LIMITED, TOOL_NOT_FOUND}"
    unfolding kinds_before_not_found by auto
  show ?thesis
  proof (cases exception)
    case None
    then show ?thesis using pat by (simp add: classify_error_def)
  next
    case (Some e)
    then show ?thesis using pat by (simp add: classify_error_def)
  qed
qed

text \<open>
  C10. Take a message whose lower-cased text contains ``host not found'', an exception that
  is absent or of none of the four recognised classes, and suppose that none of the eight
  patterns before the first tool-not-found pattern (the timeout, permission, network and
  rate-limit patterns) matches. Then the classification is \<^verbatim>\<open>TOOL_NOT_FOUND\<close> and not
  \<^verbatim>\<open>TARGET_UNREACHABLE\<close>, although the later pattern
  ``host not found|dns resolution failed'' matches the text too: the alternative
  ``not found'' of the earlier pattern is found first.
\<close>

theorem host_not_found_shadowed:
  assumes contains: "\<exists>pre post. lower message = pre @ ''host not found'' @ post"
    and tag: "exception = None \<or> (\<exists>e. exception = Some e \<and> \<not> isinstance e TimeoutError
            \<and> \<not> isinstance e PermissionError \<and> \<not> isinstance e ConnectionError
            \<and> \<not> isinstance e FileNotFoundError)"
    and before: "\<forall>(pattern, kind) \<in> set (take 8 error_patterns).
            \<not> re_search pattern (lower message)"
  shows "classify_error message exception = TOOL_NOT_FOUND
       \<and> classify_error message exception \<noteq> TARGET_UNREACHABLE
       \<and> re_search ''host not found|dns resolution failed'' (lower message)"
proof -
  let ?t = "lower message"
  let ?p = "''command not found|no such file or directory|not found''"
  have s: "search_literal ''host not found'' ?t"
    using contains contains_search_literal by blast
  have m: "re_search ?p ?t" using s by (rule host_not_found_matches)
  have "check_error_patterns error_patterns ?t
      = check_error_patterns ((?p, TOOL_NOT_FOUND) # drop 9 error_patterns) ?t"
    using check_error_patterns_skip[OF before, of "(?p, TOOL_NOT_FOUND) # drop 9 error_patterns"]
      error_patterns_split by simp
  then have "check_error_patterns error_patterns ?t = TOOL_NOT_FOUND"
    using m by simp
  moreover have "check_exception_type exception = None"
    using tag by auto
  ultimately have c: "classify_error message exception = TOOL_NOT_FOUND"
    by (simp add: classify_error_def)
  have "alternatives ''host not found|dns resolution failed''
      = [''host not found'', ''dns resolution failed'']" by simp
  then have "re_search ''host not found|dns resolution failed'' ?t"
    using s by (simp add: re_search_def)
  with c show ?thesis by simp
qed

theorem host_not_found_shadowed_witness:
  "lower ''Lookup failed: Host not found'' = ''lookup failed: '' @ ''host not found'' @ []
   \<and> list_all (\<lambda>(pattern, kind). \<not> re_search pattern (lower ''Lookup failed: Host not found''))
        (take 8 error_patterns)
   \<and> classify_error ''Lookup failed: Host not found'' None = TOOL_NOT_FOUND"
proof -
  let ?m = "''Lookup failed: Host not found''"
  have l: "lower ?m = ''lookup failed: '' @ ''host not found'' @ []" by code_simp
  then have h1: "\<exists>pre post. lower ?m = pre @ ''host not found'' @ post" by blast
  have h2: "None = None \<or> (\<exists>e. None = Some e \<and> \<not> isinstance e TimeoutError
            \<and> \<not> isinstance e PermissionError \<and> \<not> isinstance e ConnectionError
            \<and> \<not> isinstance e FileNotFoundError)" by simp
  have la: "list_all (\<lambda>(pattern, kind). \<not> re_search pattern (lower ?m)) (take 8 error_patterns)"
    by code_simp
  then have h3: "\<forall>(pattern, kind) \<in> set (take 8 error_patterns). \<not> re_search pattern (lower ?m)"
    by (simp add: list_all_iff)
  from host_not_found_shadowed[OF h1 h2 h3] l la show ?thesis by simp
qed

subsection \<open>Parameter adjustment\<close>

text \<open>
  Every adjustment declared in the table is non-empty, so the test for an empty lookup
  result in the code is the test for an undeclared entry; the generic adjustments of the
  code are those of the specification; and no entry is declared for an error kind other
  than \<^verbatim>\<open>TIMEOUT\<close>, \<^verbatim>\<open>RATE_LIMITED\<close> and \<^verbatim>\<open>RESOURCE_EXHAUSTED\<close>.
\<close>

lemma declared_adjustments_nonempty:
  "map_of parameter_adjustments tool = Some by_type \<Longrightarrow> map_of by_type etype = Some delta \<Longrightarrow>
     delta \<noteq> []"
  by (auto simp: parameter_adjustments_def split: if_splits)

lemma generic_adjustments_spec: "generic_adjustments etype = spec_generic_delta etype"
  by (cases etype) (simp_all add: generic_adjustments_def spec_generic_delta_def)

lemma adjustments_applicable:
  "(let found = lookup_adjustments tool etype
    in if found = [] then generic_adjustments etype else found)
   = spec_applicable_delta tool etype"
  by (auto simp: lookup_adjustments_def spec_applicable_delta_def Let_def generic_adjustments_spec
        dest: declared_adjustments_nonempty split: option.splits)

lemma auto_adjust_parameters_eq:
  "auto_adjust_parameters tool etype original_params
     = original_params ++ map_of (spec_applicable_delta tool etype)"
  using adjustments_applicable[of tool etype]
  by (simp add: auto_adjust_parameters_def Let_def)

lemma other_kinds_no_delta:
  "etype \<notin> {TIMEOUT, RATE_LIMITED, RESOURCE_EXHAUSTED} \<Longrightarrow> spec_applicable_delta tool etype = []"
  by (cases etype)
    (simp_all add: spec_applicable_delta_def spec_generic_delta_def parameter_adjustments_def)

text \<open>
  C5. For every tool, error kind and original parameters, the adjusted parameters hold,
  for every key of the applicable adjustments, the value of the adjustments, and for every
  other key what the original holds there; no key of the original is dropped. The
  applicable adjustments are the entry declared for the tool and the kind, otherwise the
  generic ones of the kind. For a kind other than \<^verbatim>\<open>TIMEOUT\<close>, \<^verbatim>\<open>RATE_LIMITED\<close> and
  \<^verbatim>\<open>RESOURCE_EXHAUSTED\<close> there are none, and the result is the original. For a tool without
  an entry the generic adjustments set \<^verbatim>\<open>timeout\<close> and \<^verbatim>\<open>threads\<close> for \<^verbatim>\<open>TIMEOUT\<close>,
  \<^verbatim>\<open>delay\<close> and \<^verbatim>\<open>threads\<close> for \<^verbatim>\<open>RATE_LIMITED\<close>, \<^verbatim>\<open>threads\<close> and
  \<^verbatim>\<open>memory_limit\<close> for \<^verbatim>\<open>RESOURCE_EXHAUSTED\<close>. For \<^verbatim>\<open>nmap\<close> and \<^verbatim>\<open>TIMEOUT\<close>, the key
  \<^verbatim>\<open>target\<close> is kept and \<^verbatim>\<open>timing\<close> is added.
\<close>

theorem auto_adjust_frame:
  "(\<forall>key value. map_of (spec_applicable_delta tool etype) key = Some value \<longrightarrow>
        auto_adjust_parameters tool etype original_params key = Some value)
   \<and> (\<forall>key. map_of (spec_applicable_delta tool etype) key = None \<longrightarrow>
        auto_adjust_parameters tool etype original_params key = original_params key)
   \<and> dom original_params \<subseteq> dom (auto_adjust_parameters tool etype original_params)
   \<and> (etype \<notin> {TIMEOUT, RATE_LIMITED, RESOURCE_EXHAUSTED} \<longrightarrow>
        auto_adjust_parameters tool etype original_params = original_params)
   \<and> (map_of parameter_adjustments tool = None \<longrightarrow>
        auto_adjust_parameters tool TIMEOUT original_params
          = original_params(''timeout'' \<mapsto> PStr ''60'', ''threads'' \<mapsto> PStr ''5'')
      \<and> auto_adjust_parameters tool RATE_LIMITED original_params
          = original_params(''delay'' \<mapsto> PStr ''2s'', ''threads'' \<mapsto> PStr ''3'')
      \<and> auto_adjust_parameters tool RESOURCE_EXHAUSTED original_params
          = original_params(''threads'' \<mapsto> PStr ''3'', ''memory_limit'' \<mapsto> PStr ''1G''))
   \<and> auto_adjust_parameters ''nmap'' TIMEOUT [''target'' \<mapsto> PStr ''x'']
       = [''target'' \<mapsto> PStr ''x'', ''timing'' \<mapsto> PStr ''-T2'', ''reduce_ports'' \<mapsto> PBool True]"
proof -
  have frame1: "\<forall>key value. map_of (spec_applicable_delta tool etype) key = Some value \<longrightarrow>
        auto_adjust_parameters tool etype original_params key = Some value"
    by (simp add: auto_adjust_parameters_eq map_add_def)
  have frame2: "\<forall>key. map_of (spec_applicable_delta tool etype) key = None \<longrightarrow>
        auto_adjust_parameters tool etype original_params key = original_params key"
    by (simp add: auto_adjust_parameters_eq map_add_def)
  have keep: "dom original_params \<subseteq> dom (auto_adjust_parameters tool etype original_params)"
    by (auto simp: auto_adjust_parameters_eq)
  have other: "auto_adjust_parameters tool etype original_params = original_params"
    if "etype \<notin> {TIMEOUT, RATE_LIMITED, RESOURCE_EXHAUSTED}"
    using other_kinds_no_delta[OF that, of tool] by (simp add: auto_adjust_parameters_eq)
  have generic:
    "auto_adjust_parameters tool TIMEOUT original_params
          = original_params(''timeout'' \<mapsto> PStr ''60'', ''threads'' \<mapsto> PStr ''5'')
      \<and> auto_adjust_parameters tool RATE_LIMITED original_params
          = original_params(''delay'' \<mapsto> PStr ''2s'', ''threads'' \<mapsto> PStr ''3'')
      \<and> auto_adjust_parameters tool RESOURCE_EXHAUSTED original_params
          = original_params(''threads'' \<mapsto> PStr ''3'', ''memory_limit'' \<mapsto> PStr ''1G'')"
    if "map_of parameter_adjustments tool = None"
    using that
    by (auto simp: auto_adjust_parameters_def lookup_adjustments_def generic_adjustments_def
          map_add_def fun_eq_iff)
  have nmap: "auto_adjust_parameters ''nmap'' TIMEOUT [''target'' \<mapsto> PStr ''x'']
       = [''target'' \<mapsto> PStr ''x'', ''timing'' \<mapsto> PStr ''-T2'', ''reduce_ports'' \<mapsto> PBool True]"
    by (rule ext)
      (simp add: auto_adjust_parameters_def lookup_adjustments_def parameter_adjustments_def
        map_add_def)
  from frame1 frame2 keep other generic nmap show ?thesis by blast
qed

theorem auto_adjust_frame_witness:
  "auto_adjust_parameters ''sqlmap'' TIMEOUT [''url'' \<mapsto> PStr ''u'', ''threads'' \<mapsto> PStr ''20'']
     = [''url'' \<mapsto> PStr ''u'', ''timeout'' \<mapsto> PStr ''60'', ''threads'' \<mapsto> PStr ''5'']
   \<and> auto_adjust_parameters ''sqlmap'' PARSING_ERROR [''url'' \<mapsto> PStr ''u'', ''threads'' \<mapsto> PStr ''20'']
     = [''url'' \<mapsto> PStr ''u'', ''threads'' \<mapsto> PStr ''20'']
   \<and> auto_adjust_parameters ''gobuster'' TIMEOUT [''url'' \<mapsto> PStr ''u'', ''threads'' \<mapsto> PStr ''20''] ''threads''
     = Some (PStr ''10'')
   \<and> auto_adjust_parameters ''gobuster'' TIMEOUT [''url'' \<mapsto> PStr ''u'', ''threads'' \<mapsto> PStr ''20''] ''url''
     = Some (PStr ''u'')"
proof -
  let ?o = "[''url'' \<mapsto> PStr ''u'', ''threads'' \<mapsto> PStr ''20'']"
  have n: "map_of parameter_adjustments ''sqlmap'' = None"
    by (simp add: parameter_adjustments_def)
  have k: "PARSING_ERROR \<notin> {TIMEOUT, RATE_LIMITED, RESOURCE_EXHAUSTED}" by simp
  have d: "spec_applicable_delta ''gobuster'' TIMEOUT
      = [(''threads'', PStr ''10''), (''timeout'', PStr ''30s'')]"
    by (simp add: spec_applicable_delta_def parameter_adjustments_def)
  have h1: "map_of (spec_applicable_delta ''gobuster'' TIMEOUT) ''threads'' = Some (PStr ''10'')"
    unfolding d by simp
  have h2: "map_of (spec_applicable_delta ''gobuster'' TIMEOUT) ''url'' = None"
    unfolding d by simp
  from auto_adjust_frame[of "''sqlmap''" TIMEOUT ?o] n
  have a: "auto_adjust_parameters ''sqlmap'' TIMEOUT ?o
      = ?o(''timeout'' \<mapsto> PStr ''60'', ''threads'' \<mapsto> PStr ''5'')"
    by blast
  have a': "?o(''timeout'' \<mapsto> PStr ''60'', ''threads'' \<mapsto> PStr ''5'')
      = [''url'' \<mapsto> PStr ''u'', ''timeout'' \<mapsto> PStr ''60'', ''threads'' \<mapsto> PStr ''5'']"
    by (rule ext) simp
  from auto_adjust_frame[of "''sqlmap''" PARSING_ERROR ?o] k
  have b: "auto_adjust_parameters ''sqlmap'' PARSING_ERROR ?o = ?o" by blast
  from auto_adjust_frame[of "''gobuster''" TIMEOUT ?o] h1 h2
  have c: "auto_adjust_parameters ''gobuster'' TIMEOUT ?o ''threads'' = Some (PStr ''10'')"
    and e: "auto_adjust_parameters ''gobuster'' TIMEOUT ?o ''url'' = Some (PStr ''u'')"
    by simp_all
  from a a' b c e show ?thesis by simp
qed

subsection \<open>End to end: a rate limit on gobuster\<close>

text \<open>
  C4, as the specification states it, fails: the adjusted parameters of \<^verbatim>\<open>gobuster\<close>
  for \<^verbatim>\<open>RATE_LIMITED\<close> are not \<^verbatim>\<open>{"threads": "5", "rate-limit": "10"}\<close>. These are the
  adjustments of \<^verbatim>\<open>feroxbuster\<close>; the table entry of \<^verbatim>\<open>gobuster\<close> sets
  \<^verbatim>\<open>delay\<close>.
\<close>

theorem gobuster_rate_limited_counterexample:
  "auto_adjust_parameters ''gobuster'' RATE_LIMITED [''threads'' \<mapsto> PStr ''50'']
     \<noteq> [''threads'' \<mapsto> PStr ''5'', ''rate-limit'' \<mapsto> PStr ''10'']"
proof
  assume "auto_adjust_parameters ''gobuster'' RATE_LIMITED [''threads'' \<mapsto> PStr ''50'']
     = [''threads'' \<mapsto> PStr ''5'', ''rate-limit'' \<mapsto> PStr ''10'']"
  then have "auto_adjust_parameters ''gobuster'' RATE_LIMITED [''threads'' \<mapsto> PStr ''50''] ''delay''
     = [''threads'' \<mapsto> PStr ''5'', ''rate-limit'' \<mapsto> PStr ''10''] ''delay''"
    by simp
  then show False
    by (simp add: auto_adjust_parameters_def lookup_adjustments_def parameter_adjustments_def)
qed

text \<open>
  C4, amended. For the tool \<^verbatim>\<open>gobuster\<close>, the message ``rate limit exceeded (429)'' and
  attempt count 1: the classification is \<^verbatim>\<open>RATE_LIMITED\<close>; in exact arithmetic the facade
  returns the first strategy of the catalog entry, \<^verbatim>\<open>RETRY_WITH_BACKOFF\<close>, whose score 0.72
  exceeds the score 0.68 of \<^verbatim>\<open>ADJUST_PARAMETERS\<close>; in any floating-point arithmetic the
  facade does not raise and returns a strategy of the entry, so \<^verbatim>\<open>RETRY_WITH_BACKOFF\<close> or
  \<^verbatim>\<open>ADJUST_PARAMETERS\<close>; and adjusting \<^verbatim>\<open>{"threads": "50"}\<close> gives exactly
  \<^verbatim>\<open>{"threads": "5", "delay": "1s"}\<close>.
\<close>

lemma sort_reverse_two:
  "sort_reverse key [a, b] = (if key b \<le> key a then [a, b] else [b, a])"
  by (simp add: sort_reverse_def)

theorem gobuster_rate_limited:
  "classify_error ''rate limit exceeded (429)'' None = RATE_LIMITED
   \<and> fst (handle_tool_failure exact_arith h env ''gobuster''
            (PyException [OtherError] ''rate limit exceeded (429)'')
            \<lparr> fc_target = tgt, fc_parameters = params, fc_attempt_count = Some 1 \<rparr>)
       = Inr \<lparr> action = RETRY_WITH_BACKOFF,
               parameters = [(''initial_delay'', PInt 30), (''max_delay'', PInt 300)],
               max_attempts = 5, backoff_multiplier = 1.5,
               success_probability = 0.9, estimated_time = 180 \<rparr>
   \<and> (\<exists>r. fst (handle_tool_failure fa h env ''gobuster''
                 (PyException [OtherError] ''rate limit exceeded (429)'')
                 \<lparr> fc_target = tgt, fc_parameters = params, fc_attempt_count = Some 1 \<rparr>)
              = Inr r
          \<and> r \<in> set (recovery_strategies RATE_LIMITED)
          \<and> action r \<in> {RETRY_WITH_BACKOFF, ADJUST_PARAMETERS})
   \<and> map (\<lambda>s. (action s, score exact_arith s 1)) (recovery_strategies RATE_LIMITED)
       = [(RETRY_WITH_BACKOFF, Inr 0.72), (ADJUST_PARAMETERS, Inr 0.68)]
   \<and> auto_adjust_parameters ''gobuster'' RATE_LIMITED [''threads'' \<mapsto> PStr ''50'']
       = [''threads'' \<mapsto> PStr ''5'', ''delay'' \<mapsto> PStr ''1s'']"
proof -
  let ?first = "\<lparr> action = RETRY_WITH_BACKOFF,
               parameters = [(''initial_delay'', PInt 30), (''max_delay'', PInt 300)],
               max_attempts = 5, backoff_multiplier = 1.5,
               success_probability = 0.9, estimated_time = 180 \<rparr>"
  let ?second = "\<lparr> action = ADJUST_PARAMETERS,
               parameters = [(''reduce_rate'', PBool True), (''increase_delays'', PBool True)],
               max_attempts = 2, backoff_multiplier = 1.0,
               success_probability = 0.8, estimated_time = 120 \<rparr>"
  have cat: "recovery_strategies RATE_LIMITED = [?first, ?second]" by simp
  have c: "classify_error ''rate limit exceeded (429)'' None = RATE_LIMITED" by code_simp
  have c': "classify_error ''rate limit exceeded (429)''
      (Some (PyException [OtherError] ''rate limit exceeded (429)'')) = RATE_LIMITED"
    using c by (simp add: classify_error_def isinstance_def)
  have s: "map (\<lambda>s. (action s, score exact_arith s 1)) (recovery_strategies RATE_LIMITED)
       = [(RETRY_WITH_BACKOFF, Inr 0.72), (ADJUST_PARAMETERS, Inr 0.68)]"
    by (simp add: score_exact small_int_converts)
  have viable: "viable_strategies [?first, ?second]
       (ErrorContext ''gobuster'' t p RATE_LIMITED m 1 ts st sr []) = [?first, ?second]"
    for t p m ts st sr
    by (simp add: viable_strategies_def)
  have sel_exact: "select_best_strategy exact_arith [?first, ?second]
       (ErrorContext ''gobuster'' t p RATE_LIMITED m 1 ts st sr []) = Inr ?first"
    for t p m ts st sr
    unfolding select_best_strategy_def Let_def viable
    by (simp add: score_exact small_int_converts sort_reverse_two)
  have sel_any: "\<exists>r. select_best_strategy fa [?first, ?second]
       (ErrorContext ''gobuster'' t p RATE_LIMITED m 1 ts st sr []) = Inr r
       \<and> r \<in> set [?first, ?second] \<and> action r \<in> {RETRY_WITH_BACKOFF, ADJUST_PARAMETERS}"
    for t p m ts st sr
    unfolding select_best_strategy_def Let_def viable
    by (simp add: score_def adjusted_probability_def float_pow_def small_int_converts
          sort_reverse_two)
  have h_exact: "fst (handle_tool_failure exact_arith h env ''gobuster''
            (PyException [OtherError] ''rate limit exceeded (429)'')
            \<lparr> fc_target = tgt, fc_parameters = params, fc_attempt_count = Some 1 \<rparr>)
       = Inr ?first"
    unfolding handle_tool_failure_def Let_def PyException.sel c' cat using sel_exact by simp
  have h_any: "\<exists>r. fst (handle_tool_failure fa h env ''gobuster''
                 (PyException [OtherError] ''rate limit exceeded (429)'')
                 \<lparr> fc_target = tgt, fc_parameters = params, fc_attempt_count = Some 1 \<rparr>)
              = Inr r
          \<and> r \<in> set (recovery_strategies RATE_LIMITED)
          \<and> action r \<in> {RETRY_WITH_BACKOFF, ADJUST_PARAMETERS}"
    unfolding handle_tool_failure_def Let_def PyException.sel c' cat using sel_any by simp
  have a: "auto_adjust_parameters ''gobuster'' RATE_LIMITED [''threads'' \<mapsto> PStr ''50'']
       = [''threads'' \<mapsto> PStr ''5'', ''delay'' \<mapsto> PStr ''1s'']"
    by (rule ext)
      (simp add: auto_adjust_parameters_def lookup_adjustments_def parameter_adjustments_def
        map_add_def)
  from c h_exact h_any s a show ?thesis by (intro conjI)
qed

subsection \<open>Tool substitution\<close>

text \<open>
  The filtering loop keeps the alternatives that no flag of the context excludes, and every
  list of alternatives declared in the table is non-empty.
\<close>

lemma filter_alternatives_filter:
  "filter_alternatives context alts =
     filter (\<lambda>alt. \<not> ((truthy (context ''require_no_privileges'') \<and> alt \<in> {''nmap'', ''masscan''})
                     \<or> (truthy (context ''prefer_faster_tools'') \<and> alt \<in> {''amass'', ''w3af''})))
       alts"
  by (induction alts) auto

lemma declared_alternatives_nonempty:
  "map_of tool_alternatives tool = Some alts \<Longrightarrow> alts \<noteq> []"
  by (auto simp: tool_alternatives_def split: if_splits)

text \<open>
  C7. The lookup returns \<^verbatim>\<open>None\<close> exactly for a tool without declared alternatives.
  For a tool with declared alternatives it drops those that the context excludes
  (\<^verbatim>\<open>require_no_privileges\<close> excludes \<^verbatim>\<open>nmap\<close> and \<^verbatim>\<open>masscan\<close>,
  \<^verbatim>\<open>prefer_faster_tools\<close> excludes \<^verbatim>\<open>amass\<close> and \<^verbatim>\<open>w3af\<close>) and returns the first one
  left; when none is left it returns the first of the declared list. The result is always
  one of the declared alternatives. For \<^verbatim>\<open>nmap\<close> under \<^verbatim>\<open>require_no_privileges\<close>,
  \<^verbatim>\<open>masscan\<close> is dropped and \<^verbatim>\<open>rustscan\<close> is returned; for \<^verbatim>\<open>rustscan\<close> every
  alternative is dropped and the first declared one, \<^verbatim>\<open>nmap\<close>, is returned.
\<close>

theorem get_alternative_tool_spec:
  "(get_alternative_tool tool context = None \<longleftrightarrow> map_of tool_alternatives tool = None)
   \<and> (\<forall>alts. map_of tool_alternatives tool = Some alts \<longrightarrow>
         get_alternative_tool tool context =
           (case filter
                   (\<lambda>alt. \<not> ((truthy (context ''require_no_privileges'')
                                 \<and> alt \<in> {''nmap'', ''masscan''})
                              \<or> (truthy (context ''prefer_faster_tools'')
                                 \<and> alt \<in> {''amass'', ''w3af''})))
                   alts of
              first # _ \<Rightarrow> Some first
            | [] \<Rightarrow> (case alts of first # _ \<Rightarrow> Some first | [] \<Rightarrow> None))
         \<and> (\<exists>alt \<in> set alts. get_alternative_tool tool context = Some alt))
   \<and> get_alternative_tool ''nmap'' [''require_no_privileges'' \<mapsto> PBool True] = Some ''rustscan''
   \<and> filter_alternatives [''require_no_privileges'' \<mapsto> PBool True] [''rustscan'', ''masscan'', ''zmap'']
        = [''rustscan'', ''zmap'']
   \<and> get_alternative_tool ''rustscan'' [''require_no_privileges'' \<mapsto> PBool True] = Some ''nmap''"
proof -
  let ?keep = "\<lambda>alt. \<not> ((truthy (context ''require_no_privileges'') \<and> alt \<in> {''nmap'', ''masscan''})
                     \<or> (truthy (context ''prefer_faster_tools'') \<and> alt \<in> {''amass'', ''w3af''}))"
  have some: "get_alternative_tool tool context =
           (case filter ?keep alts of
              first # _ \<Rightarrow> Some first
            | [] \<Rightarrow> (case alts of first # _ \<Rightarrow> Some first | [] \<Rightarrow> None))
         \<and> (\<exists>alt \<in> set alts. get_alternative_tool tool context = Some alt)"
    if d: "map_of tool_alternatives tool = Some alts" for alts
  proof -
    have ne: "alts \<noteq> []" using d by (rule declared_alternatives_nonempty)
    have eq: "get_alternative_tool tool context =
           (case filter ?keep alts of
              first # _ \<Rightarrow> Some first
            | [] \<Rightarrow> (case alts of first # _ \<Rightarrow> Some first | [] \<Rightarrow> None))"
      using d ne
      by (simp add: get_alternative_tool_def Let_def filter_alternatives_filter
            split: list.splits)
    have "\<exists>alt \<in> set alts. get_alternative_tool tool context = Some alt"
    proof (cases "filter ?keep alts")
      case Nil
      then show ?thesis using eq ne by (cases alts) auto
    next
      case (Cons a as)
      then have "a \<in> set (filter ?keep alts)" by simp
      then have "a \<in> set alts" by simp
      moreover have "get_alternative_tool tool context = Some a" using eq Cons by simp
      ultimately show ?thesis by blast
    qed
    with eq show ?thesis by simp
  qed
  have none: "get_alternative_tool tool context = None \<longleftrightarrow> map_of tool_alternatives tool = None"
  proof (cases "map_of tool_alternatives tool")
    case None
    then show ?thesis by (simp add: get_alternative_tool_def)
  next
    case (Some alts)
    from some[OF Some] obtain alt where "get_alternative_tool tool context = Some alt"
      by blast
    then show ?thesis using Some by simp
  qed
  have e1: "get_alternative_tool ''nmap'' [''require_no_privileges'' \<mapsto> PBool True] = Some ''rustscan''"
    by (simp add: get_alternative_tool_def tool_alternatives_def)
  have e2: "filter_alternatives [''require_no_privileges'' \<mapsto> PBool True]
      [''rustscan'', ''masscan'', ''zmap''] = [''rustscan'', ''zmap'']"
    by simp
  have e3: "get_alternative_tool ''rustscan'' [''require_no_privileges'' \<mapsto> PBool True] = Some ''nmap''"
    by (simp add: get_alternative_tool_def tool_alternatives_def)
  from none some e1 e2 e3 show ?thesis by blast
qed

theorem get_alternative_tool_spec_witness:
  "map_of tool_alternatives ''nuclei'' = Some [''jaeles'', ''nikto'', ''w3af'']
   \<and> get_alternative_tool ''nuclei'' [''prefer_faster_tools'' \<mapsto> PBool True] = Some ''jaeles''
   \<and> get_alternative_tool ''hydra'' Map.empty = None"
proof -
  have d: "map_of tool_alternatives ''nuclei'' = Some [''jaeles'', ''nikto'', ''w3af'']"
    by (simp add: tool_alternatives_def)
  have n: "map_of tool_alternatives ''hydra'' = None"
    by (simp add: tool_alternatives_def)
  from get_alternative_tool_spec[of "''nuclei''" "[''prefer_faster_tools'' \<mapsto> PBool True]"] d
  have "get_alternative_tool ''nuclei'' [''prefer_faster_tools'' \<mapsto> PBool True] = Some ''jaeles''"
    by simp
  moreover from get_alternative_tool_spec[of "''hydra''" Map.empty] n
  have "get_alternative_tool ''hydra'' Map.empty = None" by simp
  ultimately show ?thesis using d by simp
qed

subsection \<open>The bounded history\<close>

text \<open>
  An append keeps the last \<open>max_history_size\<close> entries of the extended history, when
  the size limit is at least 1.
\<close>

lemma add_to_history_size [simp]:
  "max_history_size (add_to_history h e) = max_history_size h"
  by (simp add: add_to_history_def Let_def)

lemma foldl_add_to_history_size [simp]:
  "max_history_size (foldl add_to_history h es) = max_history_size h"
  by (induction es arbitrary: h) simp_all

lemma add_to_history_last:
  assumes "1 \<le> max_history_size h"
  shows "error_history (add_to_history h e)
     = drop (length (error_history h @ [e]) - nat (max_history_size h)) (error_history h @ [e])"
proof (cases "int (length (error_history h @ [e])) > max_history_size h")
  case True
  then have "error_history (add_to_history h e)
      = slice_from (- max_history_size h) (error_history h @ [e])"
    by (simp add: add_to_history_def Let_def)
  also have "\<dots> = drop (nat (int (length (error_history h @ [e])) - max_history_size h))
      (error_history h @ [e])"
    using assms by (simp add: slice_from_def)
  also have "nat (int (length (error_history h @ [e])) - max_history_size h)
      = length (error_history h @ [e]) - nat (max_history_size h)"
    using assms by (simp add: nat_diff_distrib')
  finally show ?thesis .
next
  case False
  then have "length (error_history h @ [e]) - nat (max_history_size h) = 0" by simp
  moreover have "error_history (add_to_history h e) = error_history h @ [e]"
    using False by (simp add: add_to_history_def Let_def)
  ultimately show ?thesis by simp
qed

lemma drop_last_snoc:
  assumes "1 \<le> k"
  shows "drop (length (drop (length xs - k) xs @ [e]) - k) (drop (length xs - k) xs @ [e])
       = drop (length (xs @ [e]) - k) (xs @ [e])"
proof (cases "length xs \<le> k")
  case True
  then show ?thesis by simp
next
  case False
  then have "length xs - k + 1 = Suc (length xs) - k" using assms by simp
  then show ?thesis using False assms by (simp add: Suc_diff_le)
qed

lemma history_after_appends:
  assumes "1 \<le> max_history_size h" and "es \<noteq> []"
  shows "error_history (foldl add_to_history h es)
     = drop (length (error_history h @ es) - nat (max_history_size h)) (error_history h @ es)"
  using assms(2)
proof (induction es rule: rev_induct)
  case Nil
  then show ?case by simp
next
  case (snoc e es)
  let ?k = "nat (max_history_size h)"
  let ?h = "foldl add_to_history h es"
  have k: "1 \<le> ?k" using assms(1) by simp
  have step: "error_history (foldl add_to_history h (es @ [e]))
      = drop (length (error_history ?h @ [e]) - ?k) (error_history ?h @ [e])"
    using add_to_history_last[of ?h e] assms(1) by simp
  show ?case
  proof (cases "es = []")
    case True
    then show ?thesis using step by simp
  next
    case False
    then have "error_history ?h = drop (length (error_history h @ es) - ?k) (error_history h @ es)"
      using snoc.IH by simp
    then show ?thesis
      using step drop_last_snoc[OF k, of "error_history h @ es" e] by simp
  qed
qed

text \<open>
  C6. In a handler whose size limit is at least 1 and whose history is within the limit,
  as in the handler that \<^verbatim>\<open>__init__\<close> builds (limit 1000, empty history), any sequence
  of appends leaves the limit unchanged and a history of at most that many entries: the
  last entries of the old history followed by the appended ones, in their order. Starting
  from an empty history, appending one entry more than the limit leaves exactly as many
  entries as the limit: all the appended entries but the first, in the order of appending.
\<close>

theorem history_bounded:
  assumes "1 \<le> max_history_size h"
    and "length (error_history h) \<le> nat (max_history_size h)"
  shows "max_history_size (foldl add_to_history h es) = max_history_size h
       \<and> length (error_history (foldl add_to_history h es)) \<le> nat (max_history_size h)
       \<and> error_history (foldl add_to_history h es)
           = drop (length (error_history h @ es) - nat (max_history_size h)) (error_history h @ es)
       \<and> (error_history h = [] \<and> length es = nat (max_history_size h) + 1 \<longrightarrow>
            error_history (foldl add_to_history h es) = tl es
          \<and> length (error_history (foldl add_to_history h es)) = nat (max_history_size h))
       \<and> max_history_size init = 1000 \<and> error_history init = []"
proof -
  let ?k = "nat (max_history_size h)"
  let ?all = "error_history h @ es"
  have eq: "error_history (foldl add_to_history h es) = drop (length ?all - ?k) ?all"
  proof (cases "es = []")
    case True
    then show ?thesis using assms(2) by simp
  next
    case False
    then show ?thesis using history_after_appends[OF assms(1)] by simp
  qed
  have len: "length (error_history (foldl add_to_history h es)) \<le> ?k"
    unfolding eq by simp
  have full: "error_history (foldl add_to_history h es) = tl es
      \<and> length (error_history (foldl add_to_history h es)) = ?k"
    if "error_history h = []" "length es = ?k + 1"
    using that unfolding eq by (simp add: drop_Suc)
  show ?thesis using eq len full by (simp add: init_def)
qed

theorem history_bounded_witness:
  "length (error_history
     (foldl add_to_history init
        (replicate 1001 (ErrorContext ''nmap'' ''example.org'' [] TIMEOUT ''timed out'' 1 0 [] [] []))))
     = 1000"
proof -
  let ?e = "ErrorContext ''nmap'' ''example.org'' [] TIMEOUT ''timed out'' 1 0 [] [] []"
  have h1: "1 \<le> max_history_size init" by (simp add: init_def)
  have h2: "length (error_history init) \<le> nat (max_history_size init)" by (simp add: init_def)
  have h3: "error_history init = [] \<and> length (replicate 1001 ?e) = nat (max_history_size init) + 1"
    by (simp add: init_def)
  from history_bounded[OF h1 h2, of "replicate 1001 ?e"] h3
  have "length (error_history (foldl add_to_history init (replicate 1001 ?e)))
      = nat (max_history_size init)"
    by blast
  then show ?thesis by (simp add: init_def)
qed

subsection \<open>Statistics\<close>

lemma increment_counts_by:
  "increment (counts_by key xs) (key x) = counts_by key (xs @ [x])"
  by (rule ext) (simp add: increment_def counts_by_def Let_def)

lemma count_errors_closed:
  "count_errors now es
      (counts_by (\<lambda>e. error_type_value (error_type e)) pre,
       counts_by tool_name pre,
       map recent_entry (filter (\<lambda>e. now - timestamp e < 3600) pre))
   = (counts_by (\<lambda>e. error_type_value (error_type e)) (pre @ es),
      counts_by tool_name (pre @ es),
      map recent_entry (filter (\<lambda>e. now - timestamp e < 3600) (pre @ es)))"
proof (induction es arbitrary: pre)
  case Nil
  then show ?case by simp
next
  case (Cons e es)
  have "count_errors now (e # es)
      (counts_by (\<lambda>e. error_type_value (error_type e)) pre,
       counts_by tool_name pre,
       map recent_entry (filter (\<lambda>e. now - timestamp e < 3600) pre))
    = count_errors now es
      (counts_by (\<lambda>e. error_type_value (error_type e)) (pre @ [e]),
       counts_by tool_name (pre @ [e]),
       map recent_entry (filter (\<lambda>e. now - timestamp e < 3600) (pre @ [e])))"
    using increment_counts_by[of "\<lambda>e. error_type_value (error_type e)" pre e]
      increment_counts_by[of tool_name pre e]
    by (simp add: Let_def recent_entry_def)
  then show ?case using Cons.IH[of "pre @ [e]"] by simp
qed

lemma counts_by_Nil: "counts_by key [] = Map.empty"
  by (rule ext) (simp add: counts_by_def)

text \<open>
  C9, as the specification states it, fails: for an empty history the result has the
  single entry \<^verbatim>\<open>total_errors\<close>, and none of the other four.
\<close>

theorem get_error_statistics_empty_counterexample:
  "get_error_statistics init 0 = [(''total_errors'', Count 0)]
   \<and> map_of (get_error_statistics init 0) ''error_counts_by_type'' = None
   \<and> map_of (get_error_statistics init 0) ''error_counts_by_tool'' = None
   \<and> map_of (get_error_statistics init 0) ''recent_errors_count'' = None
   \<and> map_of (get_error_statistics init 0) ''recent_errors'' = None"
  by (simp add: get_error_statistics_def init_def)

text \<open>
  C9, amended. For a non-empty history the statistics have the five entries: the number
  of errors, the number of errors per error type, the number per tool, the number of errors
  less than 3600 seconds old, and the last 10 of these in the order of the history; all
  are computed from the history at the time of the call. For an empty history the
  statistics are the single entry \<^verbatim>\<open>total_errors\<close> with value 0.
\<close>

theorem get_error_statistics_spec:
  "(error_history h = [] \<longrightarrow> get_error_statistics h now = [(''total_errors'', Count 0)])
   \<and> (error_history h \<noteq> [] \<longrightarrow>
        get_error_statistics h now =
          (let recent = map recent_entry (filter (\<lambda>e. now - timestamp e < 3600) (error_history h))
           in [(''total_errors'', Count (length (error_history h))),
               (''error_counts_by_type'',
                  Counts (counts_by (\<lambda>e. error_type_value (error_type e)) (error_history h))),
               (''error_counts_by_tool'', Counts (counts_by tool_name (error_history h))),
               (''recent_errors_count'', Count (length recent)),
               (''recent_errors'', Recent (drop (length recent - 10) recent))]))"
proof -
  have "count_errors now (error_history h) (Map.empty, Map.empty, [])
     = (counts_by (\<lambda>e. error_type_value (error_type e)) (error_history h),
        counts_by tool_name (error_history h),
        map recent_entry (filter (\<lambda>e. now - timestamp e < 3600) (error_history h)))"
    using count_errors_closed[of now "error_history h" "[]"] by (simp add: counts_by_Nil)
  then show ?thesis
    by (simp add: get_error_statistics_def Let_def slice_from_def nat_diff_distrib')
qed

theorem get_error_statistics_spec_witness:
  "error_history (add_to_history init
      (ErrorContext ''nmap'' ''example.org'' [] TIMEOUT ''timed out'' 1 100 [] [] []))
     = [ErrorContext ''nmap'' ''example.org'' [] TIMEOUT ''timed out'' 1 100 [] [] []]
   \<and> map fst (get_error_statistics (add_to_history init
      (ErrorContext ''nmap'' ''example.org'' [] TIMEOUT ''timed out'' 1 100 [] [] [])) 200)
     = [''total_errors'', ''error_counts_by_type'', ''error_counts_by_tool'',
        ''recent_errors_count'', ''recent_errors'']
   \<and> map_of (get_error_statistics (add_to_history init
      (ErrorContext ''nmap'' ''example.org'' [] TIMEOUT ''timed out'' 1 100 [] [] [])) 200)
        ''recent_errors_count'' = Some (Count 1)
   \<and> get_error_statistics init 200 = [(''total_errors'', Count 0)]"
proof -
  let ?e = "ErrorContext ''nmap'' ''example.org'' [] TIMEOUT ''timed out'' 1 100 [] [] []"
  let ?h = "add_to_history init ?e"
  have h: "error_history ?h = [?e]"
    by (simp add: add_to_history_def init_def)
  have e: "error_history init = []" by (simp add: init_def)
  from get_error_statistics_spec[of ?h 200] h
  have "get_error_statistics ?h 200 =
          (let recent = map recent_entry (filter (\<lambda>e. 200 - timestamp e < 3600) [?e])
           in [(''total_errors'', Count (length [?e])),
               (''error_counts_by_type'',
                  Counts (counts_by (\<lambda>e. error_type_value (error_type e)) [?e])),
               (''error_counts_by_tool'', Counts (counts_by tool_name [?e])),
               (''recent_errors_count'', Count (length recent)),
               (''recent_errors'', Recent (drop (length recent - 10) recent))])"
    by simp
  then have "map fst (get_error_statistics ?h 200)
     = [''total_errors'', ''error_counts_by_type'', ''error_counts_by_tool'',
        ''recent_errors_count'', ''recent_errors'']"
    and "map_of (get_error_statistics ?h 200) ''recent_errors_count'' = Some (Count 1)"
    by (simp_all add: Let_def)
  moreover from get_error_statistics_spec[of init 200] e
  have "get_error_statistics init 200 = [(''total_errors'', Count 0)]" by simp
  ultimately show ?thesis using h by simp
qed

end
